theory Spec2Isabelle
  imports Main "HOL-Library.Word"
begin

section \<open>JavaScript values\<close>

text \<open>
  The sync engine of browser-laptop (\<^verbatim>\<open>js/state/syncUtil.js\<close> and \<^verbatim>\<open>app/sync.js\<close>) works on
  loosely typed data: plain objects, arrays, strings, numbers and typed byte arrays, and the
  Immutable collections of the application state. The plain values are one datatype.

  \<^item> \<open>Num\<close> holds the integers among JavaScript's numbers (timestamps, zoom levels, enum codes,
    byte values); fractions, NaN and the infinities are outside the model.
  \<^item> \<open>Bytes\<close> is a \<^verbatim>\<open>Uint8Array\<close>: every element is one octet.
  \<^item> \<open>Arr\<close> is an \<^verbatim>\<open>Array\<close>.
  \<^item> \<open>Obj\<close> is a plain object whose prototype is \<^verbatim>\<open>Object.prototype\<close>: the own enumerable
    properties in enumeration order, each key once and none of them named \<^verbatim>\<open>__proto__\<close> (a
    \<^verbatim>\<open>toJS()\<close> result never has such an own property).
  \<^item> \<open>Builtin k\<close> is the built-in value \<^verbatim>\<open>Object.prototype[k]\<close> (a native function) that every
    plain object inherits under the name \<open>k\<close>. It is read out of an object by a lookup that
    walks the prototype chain. The data the engine handles (application state, records) holds
    no functions: an own property is data and is never callable.
\<close>

datatype jsval =
    Undefined
  | Null
  | Bool bool
  | Num int
  | Str string
  | Bytes "8 word list"
  | Arr "jsval list"
  | Obj "(string \<times> jsval) list"
  | Builtin string

type_synonym jsobj = "(string \<times> jsval) list"

text \<open>\<^verbatim>\<open>!x\<close> is \<open>\<not> truthy x\<close>.\<close>

fun truthy :: "jsval \<Rightarrow> bool" where
  "truthy Undefined = False"
| "truthy Null = False"
| "truthy (Bool b) = b"
| "truthy (Num n) = (n \<noteq> 0)"
| "truthy (Str s) = (s \<noteq> [])"
| "truthy (Bytes bs) = True"
| "truthy (Arr xs) = True"
| "truthy (Obj fs) = True"
| "truthy (Builtin k) = True"

text \<open>\<^verbatim>\<open>a || b\<close> on values.\<close>

definition or_else :: "jsval \<Rightarrow> jsval \<Rightarrow> jsval" where
  "or_else a b = (if truthy a then a else b)"

text \<open>\<^verbatim>\<open>typeof x === 'number'\<close> and \<^verbatim>\<open>typeof x === 'object'\<close>.\<close>

fun typeof_number :: "jsval \<Rightarrow> bool" where
  "typeof_number (Num n) = True"
| "typeof_number _ = False"

fun typeof_object :: "jsval \<Rightarrow> bool" where
  "typeof_object Null = True"
| "typeof_object (Bytes bs) = True"
| "typeof_object (Arr xs) = True"
| "typeof_object (Obj fs) = True"
| "typeof_object _ = False"

text \<open>\<^verbatim>\<open>x instanceof Array\<close> and \<^verbatim>\<open>x instanceof Uint8Array\<close>.\<close>

fun instanceof_Array :: "jsval \<Rightarrow> bool" where
  "instanceof_Array (Arr xs) = True"
| "instanceof_Array _ = False"

fun instanceof_Uint8Array :: "jsval \<Rightarrow> bool" where
  "instanceof_Uint8Array (Bytes bs) = True"
| "instanceof_Uint8Array _ = False"

text \<open>
  \<^verbatim>\<open>Array.from(bytes)\<close>, and \<^verbatim>\<open>new Immutable.List(bytes).toJS()\<close>, of a byte buffer: the same
  octets, in the same order, as numbers.
\<close>

definition array_from :: "8 word list \<Rightarrow> jsval" where
  "array_from bs = Arr (map (\<lambda>b. Num (uint b)) bs)"

text \<open>
  A \<^verbatim>\<open>throw new Error(msg)\<close> of the source is \<open>Error msg\<close>; a \<^verbatim>\<open>TypeError\<close> raised by the
  language itself (a property read on \<^verbatim>\<open>undefined\<close>, a call of something that is no function,
  an object that converts to no primitive) is \<open>TypeError\<close> with the expression that failed.
\<close>

datatype error = Error string | TypeError string

subsection \<open>Properties of plain objects\<close>

text \<open>
  The names every plain object inherits from \<^verbatim>\<open>Object.prototype\<close>. The \<^verbatim>\<open>in\<close> operator and
  a property read see them; \<^verbatim>\<open>hasOwnProperty\<close>, \<^verbatim>\<open>for...in\<close> and \<^verbatim>\<open>Object.keys\<close> do not
  (none of them is enumerable).
\<close>

definition object_prototype_functions :: "string list" where
  "object_prototype_functions =
     [''constructor'', ''hasOwnProperty'', ''isPrototypeOf'', ''propertyIsEnumerable'',
      ''toLocaleString'', ''toString'', ''valueOf'',
      ''__defineGetter__'', ''__defineSetter__'', ''__lookupGetter__'', ''__lookupSetter__'']"

definition object_prototype_names :: "string list" where
  "object_prototype_names = ''__proto__'' # object_prototype_functions"

text \<open>
  \<^verbatim>\<open>Object.prototype[k]\<close>: a native function, the prototype object itself (an object with no
  enumerable property) for \<^verbatim>\<open>__proto__\<close>, and \<^verbatim>\<open>undefined\<close> for any other name.
\<close>

definition inherited :: "string \<Rightarrow> jsval" where
  "inherited k =
     (if k = ''__proto__'' then Obj []
      else if k \<in> set object_prototype_functions then Builtin k
      else Undefined)"

text \<open>\<^verbatim>\<open>obj.hasOwnProperty(k)\<close>.\<close>

definition has :: "jsobj \<Rightarrow> string \<Rightarrow> bool" where
  "has obj k = (k \<in> set (map fst obj))"

text \<open>The own property \<open>k\<close> of a plain object, \<^verbatim>\<open>undefined\<close> where it has none.\<close>

definition get :: "jsobj \<Rightarrow> string \<Rightarrow> jsval" where
  "get obj k = (case map_of obj k of Some v \<Rightarrow> v | None \<Rightarrow> Undefined)"

text \<open>\<^verbatim>\<open>obj[k]\<close> and \<^verbatim>\<open>obj.k\<close> of a plain object: the own property, else the inherited one.\<close>

definition prop_of :: "jsobj \<Rightarrow> string \<Rightarrow> jsval" where
  "prop_of obj k = (case map_of obj k of Some v \<Rightarrow> v | None \<Rightarrow> inherited k)"

text \<open>\<^verbatim>\<open>k in obj\<close> of a plain object: own or inherited.\<close>

definition in_op :: "string \<Rightarrow> jsobj \<Rightarrow> bool" where
  "in_op k obj = (has obj k \<or> k \<in> set object_prototype_names)"

text \<open>
  Defining or overwriting an own property: an existing key keeps its place in the enumeration
  order, a new key goes last. This is \<^verbatim>\<open>Object.assign\<close> of one property, and \<^verbatim>\<open>map.set(k, v)\<close>
  on the entries of an Immutable map.
\<close>

fun set_prop :: "string \<Rightarrow> 'a \<Rightarrow> (string \<times> 'a) list \<Rightarrow> (string \<times> 'a) list" where
  "set_prop k v [] = [(k, v)]"
| "set_prop k v ((k', v') # obj) =
     (if k = k' then (k, v) # obj else (k', v') # set_prop k v obj)"

text \<open>
  The assignment \<^verbatim>\<open>obj[k] = v\<close> on a plain object, for a key that is no array index (the
  engine assigns under names it has found in the defaults or on the prototype). Under the name
  \<^verbatim>\<open>__proto__\<close> it would run the inherited setter, which defines no own property; every other
  name defines or overwrites the own property.
\<close>

definition assign :: "string \<Rightarrow> jsval \<Rightarrow> jsobj \<Rightarrow> jsobj" where
  "assign k v obj = (if k = ''__proto__'' then obj else set_prop k v obj)"

text \<open>The keys a \<^verbatim>\<open>for (let field in obj)\<close> loop visits, in order.\<close>

definition for_in_keys :: "jsobj \<Rightarrow> string list" where
  "for_in_keys obj = map fst obj"

subsection \<open>Strings as property keys\<close>

text \<open>
  Decimal digits of a natural number, as \<^verbatim>\<open>String(n)\<close> prints them (an integer below
  \<open>10\<^sup>2\<^sup>1\<close> is printed in full).
\<close>

fun show_nat :: "nat \<Rightarrow> string" where
  "show_nat n =
     (if n < 10 then [''0123456789'' ! n]
      else show_nat (n div 10) @ [''0123456789'' ! (n mod 10)])"

declare show_nat.simps [simp del]

definition show_int :: "int \<Rightarrow> string" where
  "show_int i = (if i < 0 then CHR ''-'' # show_nat (nat (- i)) else show_nat (nat i))"

fun join_comma :: "string list \<Rightarrow> string" where
  "join_comma [] = []"
| "join_comma [s] = s"
| "join_comma (s # t # rest) = s @ '','' @ join_comma (t # rest)"

text \<open>
  \<^verbatim>\<open>String(x)\<close>, the conversion a computed property key \<^verbatim>\<open>table[x]\<close> and a template string
  \<^verbatim>\<open>`${x}`\<close> go through. An array joins its elements with commas, \<^verbatim>\<open>null\<close> and \<^verbatim>\<open>undefined\<close>
  elements printing as nothing. A plain object is converted by its \<^verbatim>\<open>toString\<close> method: the
  inherited one prints \<^verbatim>\<open>[object Object]\<close>; an own property of that name is data and not
  callable, \<^verbatim>\<open>valueOf\<close> (own, or inherited and returning the object) gives no primitive
  either, and the conversion throws a \<^verbatim>\<open>TypeError\<close>.
\<close>

fun to_string :: "jsval \<Rightarrow> error + string"
  and join_elements :: "jsval list \<Rightarrow> error + string list" where
  "to_string Undefined = Inr ''undefined''"
| "to_string Null = Inr ''null''"
| "to_string (Bool b) = Inr (if b then ''true'' else ''false'')"
| "to_string (Num n) = Inr (show_int n)"
| "to_string (Str s) = Inr s"
| "to_string (Bytes bs) = Inr (join_comma (map (\<lambda>b. show_nat (unat b)) bs))"
| "to_string (Arr xs) =
     (case join_elements xs of Inl e \<Rightarrow> Inl e | Inr ss \<Rightarrow> Inr (join_comma ss))"
| "to_string (Obj fs) =
     (if has fs ''toString'' then Inl (TypeError ''Cannot convert object to primitive value'')
      else Inr ''[object Object]'')"
| "to_string (Builtin k) =
     Inr (''function '' @ (if k = ''constructor'' then ''Object'' else k) @ ''() { [native code] }'')"
| "join_elements [] = Inr []"
| "join_elements (x # xs) =
     (case (if x = Undefined \<or> x = Null then Inr [] else to_string x) of
        Inl e \<Rightarrow> Inl e
      | Inr s \<Rightarrow> (case join_elements xs of Inl e \<Rightarrow> Inl e | Inr ss \<Rightarrow> Inr (s # ss)))"

text \<open>\<^verbatim>\<open>table[key]\<close> with a computed key.\<close>

definition at_key :: "jsobj \<Rightarrow> jsval \<Rightarrow> error + jsval" where
  "at_key table key = (case to_string key of Inl e \<Rightarrow> Inl e | Inr k \<Rightarrow> Inr (prop_of table k))"

text \<open>Is \<open>s\<close> a contiguous part of \<open>t\<close>: \<^verbatim>\<open>t.includes(s)\<close> on strings.\<close>

fun starts_with :: "string \<Rightarrow> string \<Rightarrow> bool" where
  "starts_with t [] = True"
| "starts_with [] (c # s) = False"
| "starts_with (d # t) (c # s) = (d = c \<and> starts_with t s)"

fun string_includes :: "string \<Rightarrow> string \<Rightarrow> bool" where
  "string_includes [] s = (s = [])"
| "string_includes (d # t) s = (starts_with (d # t) s \<or> string_includes t s)"

subsection \<open>The order of the keys of a plain object\<close>

text \<open>
  A plain object lists the keys that are array indices first, in ascending numeric order, and
  then its other keys in the order they were created. An array index is the canonical decimal
  numeral of an integer from 0 to \<open>2\<^sup>3\<^sup>2 - 2\<close>.
\<close>

definition digit_value :: "char \<Rightarrow> nat option" where
  "digit_value c =
     map_of [(CHR ''0'', 0), (CHR ''1'', 1), (CHR ''2'', 2), (CHR ''3'', 3), (CHR ''4'', 4),
             (CHR ''5'', 5), (CHR ''6'', 6), (CHR ''7'', 7), (CHR ''8'', 8), (CHR ''9'', 9)] c"

definition decimal :: "string \<Rightarrow> nat option" where
  "decimal s =
     (if s = [] then None
      else fold (\<lambda>c acc. case (acc, digit_value c) of
                            (Some n, Some d) \<Rightarrow> Some (10 * n + d)
                          | _ \<Rightarrow> None) s (Some 0))"

definition array_index :: "string \<Rightarrow> nat option" where
  "array_index s =
     (case decimal s of
        Some n \<Rightarrow> if n < 4294967295 \<and> (s = ''0'' \<or> hd s \<noteq> CHR ''0'') then Some n else None
      | None \<Rightarrow> None)"

text \<open>
  The properties of the plain object that is made by defining the properties \<open>kvs\<close> one after
  the other, in the order the object lists them.
\<close>

definition plain_order :: "(string \<times> 'a) list \<Rightarrow> (string \<times> 'a) list" where
  "plain_order kvs =
     sort_key (\<lambda>(k, v). case array_index k of Some n \<Rightarrow> n | None \<Rightarrow> 0)
       (filter (\<lambda>(k, v). array_index k \<noteq> None) kvs)
     @ filter (\<lambda>(k, v). array_index k = None) kvs"

section \<open>Immutable collections\<close>

text \<open>
  The application state is made of Immutable collections. An \<^verbatim>\<open>Immutable.Map\<close> is the list of
  its entries in iteration order, each key once and none of them named \<^verbatim>\<open>__proto__\<close>; an
  \<^verbatim>\<open>Immutable.List\<close> is the list of its elements; \<open>Plain v\<close> is any other value, held as it is.
\<close>

datatype ival =
    ImmutableMap "(string \<times> ival) list"
  | ImmutableList "ival list"
  | Plain jsval

type_synonym imap = "(string \<times> ival) list"

text \<open>\<^verbatim>\<open>!x\<close> is \<open>\<not> is_truthy x\<close>: a collection is an object, and truthy.\<close>

fun is_truthy :: "ival \<Rightarrow> bool" where
  "is_truthy (Plain v) = truthy v"
| "is_truthy _ = True"

text \<open>
  \<^verbatim>\<open>x.toJS\<close> is there (truthy) on an Immutable collection; on a plain object it is whatever
  property the object has under that name, and no other value has one.
\<close>

fun has_toJS :: "ival \<Rightarrow> bool" where
  "has_toJS (Plain (Obj fs)) = truthy (prop_of fs ''toJS'')"
| "has_toJS (Plain v) = False"
| "has_toJS _ = True"

text \<open>\<^verbatim>\<open>map.has(k)\<close> and \<^verbatim>\<open>map.get(k)\<close> of an Immutable map.\<close>

definition map_has :: "imap \<Rightarrow> string \<Rightarrow> bool" where
  "map_has m k = (k \<in> set (map fst m))"

definition map_get :: "imap \<Rightarrow> string \<Rightarrow> ival" where
  "map_get m k = (case map_of m k of Some v \<Rightarrow> v | None \<Rightarrow> Plain Undefined)"

text \<open>
  \<^verbatim>\<open>x.toJS()\<close>: deeply, a map becomes the plain object that has its entries defined in iteration
  order, a list becomes an array, and any other value stays as it is.
\<close>

fun toJS :: "ival \<Rightarrow> jsval" where
  "toJS (ImmutableMap m) = Obj (plain_order (map (\<lambda>(k, v). (k, toJS v)) m))"
| "toJS (ImmutableList xs) = Arr (map toJS xs)"
| "toJS (Plain v) = v"

text \<open>\<^verbatim>\<open>map.toJS()\<close> as the list of the properties of the plain object.\<close>

definition toJS_map :: "imap \<Rightarrow> jsobj" where
  "toJS_map m = plain_order (map (\<lambda>(k, v). (k, toJS v)) m)"

text \<open>
  \<^verbatim>\<open>Immutable.fromJS(x)\<close> (Immutable 3): deeply, an array becomes a list and a plain object a
  map. An object counts as plain if its \<^verbatim>\<open>constructor\<close> property is \<^verbatim>\<open>Object\<close> or
  \<^verbatim>\<open>undefined\<close>; an object with an own property \<^verbatim>\<open>constructor\<close> of any other value is left as
  it is, and so is every other value.
\<close>

definition isPlainObj :: "jsobj \<Rightarrow> bool" where
  "isPlainObj fs =
     (prop_of fs ''constructor'' = Builtin ''constructor'' \<or> prop_of fs ''constructor'' = Undefined)"

fun fromJS :: "jsval \<Rightarrow> ival" where
  "fromJS (Arr xs) = ImmutableList (map fromJS xs)"
| "fromJS (Obj fs) =
     (if isPlainObj fs then ImmutableMap (map (\<lambda>(k, v). (k, fromJS v)) fs) else Plain (Obj fs))"
| "fromJS v = Plain v"

declare fromJS.simps [simp del]

text \<open>
  \<^verbatim>\<open>new Immutable.List(bytes)\<close> of a byte buffer: the octets as numbers.
\<close>

definition list_of_bytes :: "8 word list \<Rightarrow> ival" where
  "list_of_bytes bs = ImmutableList (map (\<lambda>b. Plain (Num (uint b))) bs)"

text \<open>
  \<^verbatim>\<open>tags.includes(s)\<close> where \<open>tags\<close> is a truthy entry of an Immutable map: an Immutable list
  or map looks for the value among its elements or values, an array among its elements, a
  string for the substring, a typed array holds numbers only; a plain object, a number or a
  boolean has no such method and the call throws.
\<close>

fun immutable_includes :: "ival \<Rightarrow> string \<Rightarrow> error + bool" where
  "immutable_includes (ImmutableList xs) s = Inr (Plain (Str s) \<in> set xs)"
| "immutable_includes (ImmutableMap m) s = Inr (Plain (Str s) \<in> set (map snd m))"
| "immutable_includes (Plain (Arr xs)) s = Inr (Str s \<in> set xs)"
| "immutable_includes (Plain (Str t)) s = Inr (string_includes t s)"
| "immutable_includes (Plain (Bytes bs)) s = Inr False"
| "immutable_includes (Plain v) s = Inl (TypeError ''item.get(...).includes is not a function'')"

section \<open>Effects and the engine's world\<close>

datatype 'a outcome = Ok 'a | Throw error

text \<open>The write actions of the sync protocol (\<^verbatim>\<open>proto.actions\<close>).\<close>

datatype write_action = CREATE | UPDATE | DELETE

text \<open>
  What a record builder returns: \<^verbatim>\<open>{name, objectId, value}\<close>.
\<close>

record sync_item =
  item_name :: string
  item_objectId :: jsval
  item_value :: jsval

text \<open>
  A record as \<^verbatim>\<open>sendSyncRecords\<close> puts it on the channel:
  \<^verbatim>\<open>{action, deviceId, objectId, [item.name]: item.value}\<close>. The computed key is one of the
  builders' literals (\<^verbatim>\<open>bookmark\<close>, \<^verbatim>\<open>historySite\<close>, \<^verbatim>\<open>siteSetting\<close>, \<^verbatim>\<open>device\<close>), so it never
  collides with the three fixed keys; the payload is kept as the pair of key and value.
\<close>

record sync_record =
  rec_action :: write_action
  rec_deviceId :: jsval
  rec_objectId :: jsval
  rec_payload :: "string \<times> jsval"

text \<open>
  The messages \<^verbatim>\<open>sender.send\<close> puts on the channel to the sync client. An element of a record
  list is \<open>None\<close> where the JavaScript array holds \<^verbatim>\<open>undefined\<close>.
\<close>

datatype message =
    SEND_SYNC_RECORDS jsval "sync_record option list"
  | DELETE_SYNC_CATEGORY jsval
  | DELETE_SYNC_SITE_SETTINGS
  | FETCH_SYNC_RECORDS "string list" jsval

text \<open>The requests made of the application through \<^verbatim>\<open>appActions\<close>.\<close>

datatype app_action =
    AppSetObjectId jsval "jsval list"
  | AppSaveSyncInitData jsval jsval jsval

text \<open>The callbacks the engine registers.\<close>

datatype listener =
    DispatcherCallback
  | OnGetExistingObjects
  | OnResolvedSyncRecords

text \<open>
  The part of the application state the engine reads: \<^verbatim>\<open>appState.get('sites')\<close> (an Immutable
  list, possibly absent), \<^verbatim>\<open>appState.get('siteSettings')\<close> (an Immutable map from host pattern
  to setting, possibly absent) and \<^verbatim>\<open>appState.getIn(['sync', 'lastFetchTimestamp'])\<close>.
\<close>

record app_state =
  sites :: "ival list option"
  siteSettings :: "imap option"
  lastFetchTimestamp :: jsval

text \<open>
  Everything the engine reads or changes outside its arguments.
  \<^item> \<open>deviceId\<close>: the module variable of \<^verbatim>\<open>sync.js\<close>, \<^verbatim>\<open>null\<close> until the handshake sets it.
  \<^item> \<open>pollIntervalId\<close>: the repeating timer, held as the wall-clock time it is next due.
  \<^item> \<open>startAt\<close>: the watermark, the variable \<^verbatim>\<open>poll\<close> closes over.
  \<^item> \<open>clock\<close>: \<^verbatim>\<open>Date.now()\<close>, in milliseconds.
  \<^item> \<open>entropy\<close> and \<open>drawn\<close>: the octet stream behind \<^verbatim>\<open>crypto.randomBytes\<close> and how much of
    it has been consumed.
  \<^item> \<open>channel\<close>, \<open>dispatched\<close>, \<open>console\<close>, \<open>listeners\<close>: what has been sent, requested, logged and
    registered so far, oldest first.
\<close>

record world =
  deviceId :: jsval
  pollIntervalId :: "nat option"
  startAt :: jsval
  appState :: app_state
  clock :: nat
  entropy :: "nat \<Rightarrow> 8 word"
  drawn :: nat
  channel :: "message list"
  dispatched :: "app_action list"
  console :: "string list"
  listeners :: "listener list"

text \<open>
  Constants the engine imports from modules that are not part of the sources at hand (the keys
  of \<^verbatim>\<open>proto.categories\<close>, \<^verbatim>\<open>appConfig.sync.fetchInterval\<close> in milliseconds): parameters of the
  model.
\<close>

record imported =
  categoryNames :: "string list"
  fetchInterval :: nat

text \<open>Sequencing of two effects: the second runs only if the first did not throw.\<close>

definition and_then ::
  "(world \<Rightarrow> 'a outcome \<times> world) \<Rightarrow> ('a \<Rightarrow> world \<Rightarrow> 'b outcome \<times> world) \<Rightarrow>
   world \<Rightarrow> 'b outcome \<times> world" where
  "and_then m f w = (case m w of (Ok x, w') \<Rightarrow> f x w' | (Throw e, w') \<Rightarrow> (Throw e, w'))"

text \<open>\<^verbatim>\<open>crypto.randomBytes(n)\<close>: the next \<open>n\<close> octets of the stream.\<close>

definition randomBytes :: "nat \<Rightarrow> world \<Rightarrow> 8 word list \<times> world" where
  "randomBytes n w = (map (entropy w) [drawn w ..< drawn w + n], w\<lparr>drawn := drawn w + n\<rparr>)"

text \<open>
  \<^verbatim>\<open>log(message)\<close>: \<^verbatim>\<open>console.log(`sync ${new Date().getTime()}:`, message)\<close> prints one line.
\<close>

definition log :: "string \<Rightarrow> world \<Rightarrow> world" where
  "log msg w = w\<lparr>console := console w @ [''sync '' @ show_nat (clock w) @ '': '' @ msg]\<rparr>"

section \<open>syncUtil.js\<close>

definition siteSettingDefaults :: jsobj where
  "siteSettingDefaults =
     [(''hostPattern'', Str ''''),
      (''zoomLevel'', Num 0),
      (''shieldsUp'', Bool True),
      (''adControl'', Num 1),
      (''cookieControl'', Num 0),
      (''safeBrowsing'', Bool True),
      (''noScript'', Bool False),
      (''httpsEverywhere'', Bool True),
      (''fingerprintingProtection'', Bool False),
      (''ledgerPayments'', Bool True),
      (''ledgerPaymentsShown'', Bool True)]"

text \<open>
  \<^verbatim>\<open>syncUtil.CATEGORY_MAP\<close>, which \<^verbatim>\<open>sync.js\<close> reads: \<^verbatim>\<open>syncUtil.js\<close> exports no property of
  this name, so the read gives \<^verbatim>\<open>undefined\<close>, here \<open>None\<close>.
\<close>

definition CATEGORY_MAP :: "jsobj option" where
  "CATEGORY_MAP = None"

subsection \<open>setObjectId, now, isSyncable, newObjectId\<close>

text \<open>
  By the shape of \<open>item\<close>: an Immutable map reads its entry and writes it (a new key goes last
  in a map of up to eight entries); an Immutable list has no entry \<^verbatim>\<open>objectId\<close> and its \<^verbatim>\<open>set\<close>
  under this name returns it unchanged, after the octets were drawn; any other value is
  returned from at the first test, unless it is a plain object with a truthy property
  \<^verbatim>\<open>toJS\<close>, which has no method \<^verbatim>\<open>get\<close>.
\<close>

definition setObjectId :: "ival \<Rightarrow> world \<Rightarrow> ival outcome \<times> world" where
  "setObjectId item w =
     (if \<not> is_truthy item \<or> \<not> has_toJS item then (Ok (Plain Undefined), w)
      else
        (case item of
           ImmutableMap m \<Rightarrow>
             if is_truthy (map_get m ''objectId'') then (Ok item, w)
             else (let (bytes, w') = randomBytes 16 w
                   in (Ok (ImmutableMap (set_prop ''objectId'' (list_of_bytes bytes) m)), w'))
         | ImmutableList xs \<Rightarrow>
             (let (bytes, w') = randomBytes 16 w in (Ok item, w'))
         | Plain v \<Rightarrow> (Throw (TypeError ''item.get is not a function''), w)))"

text \<open>\<^verbatim>\<open>Math.floor(Date.now() / 1000)\<close>.\<close>

definition now :: "world \<Rightarrow> int" where
  "now w = int (clock w div 1000)"

text \<open>
  \<^verbatim>\<open>isSyncable(type, item)\<close>, by the shape of \<open>item\<close>: an Immutable map is asked for its entries;
  an Immutable list has neither an entry \<^verbatim>\<open>tags\<close> nor one of the setting fields; any other
  value has no method \<^verbatim>\<open>get\<close> or \<^verbatim>\<open>has\<close>.
\<close>

definition isSyncable :: "string \<Rightarrow> ival \<Rightarrow> error + bool" where
  "isSyncable type item =
     (if type = ''bookmark'' then
        (case item of
           ImmutableMap m \<Rightarrow>
             if is_truthy (map_get m ''tags'') then
               (case immutable_includes (map_get m ''tags'') ''bookmark'' of
                  Inl e \<Rightarrow> Inl e
                | Inr True \<Rightarrow> Inr True
                | Inr False \<Rightarrow> immutable_includes (map_get m ''tags'') ''bookmark-folder'')
             else Inr False
         | ImmutableList xs \<Rightarrow> Inr False
         | Plain v \<Rightarrow> Inl (TypeError ''item.get is not a function''))
      else if type = ''siteSetting'' then
        (case item of
           ImmutableMap m \<Rightarrow> Inr (list_ex (map_has m) (for_in_keys siteSettingDefaults))
         | ImmutableList xs \<Rightarrow> Inr False
         | Plain v \<Rightarrow> Inl (TypeError ''item.has is not a function''))
      else Inr False)"

definition newObjectId :: "jsval list \<Rightarrow> world \<Rightarrow> jsval \<times> world" where
  "newObjectId objectPath w =
     (let (bytes, w') = randomBytes 16 w;
          objectId = array_from bytes
      in (objectId, w'\<lparr>dispatched := dispatched w' @ [AppSetObjectId objectId objectPath]\<rparr>))"

text \<open>The expression \<^verbatim>\<open>obj.objectId || module.exports.newObjectId(path)\<close> of both builders.\<close>

definition objectId_or_new :: "jsobj \<Rightarrow> jsval list \<Rightarrow> world \<Rightarrow> jsval \<times> world" where
  "objectId_or_new obj objectPath w =
     (if truthy (prop_of obj ''objectId'') then (prop_of obj ''objectId'', w)
      else newObjectId objectPath w)"

subsection \<open>createSiteData\<close>

definition siteData_initial :: jsobj where
  "siteData_initial =
     [(''location'', Str ''''),
      (''title'', Str ''''),
      (''customTitle'', Str ''''),
      (''lastAccessedTime'', Num 0),
      (''creationTime'', Num 0)]"

text \<open>
  The loop \<^verbatim>\<open>for (let field in site) { if (field in siteData) { siteData[field] = site[field] } }\<close>.
\<close>

definition copy_site_fields :: "jsobj \<Rightarrow> jsobj \<Rightarrow> jsobj" where
  "copy_site_fields site siteData =
     fold (\<lambda>field siteData.
             if in_op field siteData then assign field (prop_of site field) siteData
             else siteData)
          (for_in_keys site) siteData"

text \<open>
  \<^verbatim>\<open>site.tags.includes(s)\<close> where \<open>site.tags\<close> is a truthy property of a plain object: an array
  looks among its elements, a string for the substring, a typed array holds numbers only;
  nothing else has such a method.
\<close>

fun plain_includes :: "jsval \<Rightarrow> string \<Rightarrow> error + bool" where
  "plain_includes (Arr xs) s = Inr (Str s \<in> set xs)"
| "plain_includes (Str t) s = Inr (string_includes t s)"
| "plain_includes (Bytes bs) s = Inr False"
| "plain_includes _ s = Inl (TypeError ''site.tags.includes is not a function'')"

text \<open>
  \<^verbatim>\<open>site.tags.length\<close> where \<open>site.tags\<close> is truthy and \<^verbatim>\<open>isSyncable\<close> has returned (so it is
  an array, a string, a typed array or an object).
\<close>

fun length_of :: "jsval \<Rightarrow> jsval" where
  "length_of (Arr xs) = Num (int (length xs))"
| "length_of (Str t) = Num (int (length t))"
| "length_of (Bytes bs) = Num (int (length bs))"
| "length_of (Obj fs) = prop_of fs ''length''"
| "length_of _ = Undefined"

text \<open>
  \<open>site\<close> is the plain object the callers pass (a \<^verbatim>\<open>toJS()\<close> result); \<open>siteIndex\<close> is
  \<open>Undefined\<close> where the caller passes one argument. The result is \<open>Ok None\<close> where the function
  falls off its end and returns \<^verbatim>\<open>undefined\<close>. The object literal is evaluated in the order it
  is written: the object id (and with it the request for a new one) before \<^verbatim>\<open>isFolder\<close>.
\<close>

definition createSiteData ::
  "jsobj \<Rightarrow> jsval \<Rightarrow> world \<Rightarrow> sync_item option outcome \<times> world" where
  "createSiteData site siteIndex w =
     (let siteData = copy_site_fields site siteData_initial in
      case isSyncable ''bookmark'' (fromJS (Obj site)) of
        Inl e \<Rightarrow> (Throw e, w)
      | Inr True \<Rightarrow>
          if \<not> truthy (prop_of site ''objectId'') \<and> \<not> typeof_number siteIndex
          then (Throw (Error ''Missing bookmark objectId.''), w)
          else
            (let (objectId, w') = objectId_or_new site [Str ''sites'', siteIndex] w in
             case plain_includes (prop_of site ''tags'') ''bookmark-folder'' of
               Inl e \<Rightarrow> (Throw e, w')
             | Inr isFolder \<Rightarrow>
                 (Ok (Some \<lparr>item_name = ''bookmark'',
                            item_objectId = objectId,
                            item_value = Obj
                              [(''site'', Obj siteData),
                               (''isFolder'', Bool isFolder),
                               (''folderId'', or_else (prop_of site ''folderId'') (Num 0)),
                               (''parentFolderId'',
                                  or_else (prop_of site ''parentFolderId'') (Num 0))]\<rparr>), w'))
      | Inr False \<Rightarrow>
          if \<not> truthy (prop_of site ''tags'') \<or> \<not> truthy (length_of (prop_of site ''tags''))
          then
            if \<not> truthy (prop_of site ''objectId'') \<and> \<not> typeof_number siteIndex
            then (Throw (Error ''Missing historySite objectId.''), w)
            else
              (let (objectId, w') = objectId_or_new site [Str ''sites'', siteIndex] w in
               (Ok (Some \<lparr>item_name = ''historySite'',
                          item_objectId = objectId,
                          item_value = Obj siteData\<rparr>), w'))
          else (Ok None, w))"

subsection \<open>createSiteSettingsData\<close>

definition adControlEnum :: jsobj where
  "adControlEnum =
     [(''showBraveAds'', Num 0), (''blockAds'', Num 1), (''allowAdsAndTracking'', Num 2)]"

definition cookieControlEnum :: jsobj where
  "cookieControlEnum = [(''block3rdPartyCookie'', Num 0), (''allowAllCookies'', Num 1)]"

text \<open>
  The body of the loop \<^verbatim>\<open>for (let field in setting) { ... }\<close> on the record value under
  construction, and the loop over the keys.
\<close>

definition setting_step :: "jsobj \<Rightarrow> string \<Rightarrow> jsobj \<Rightarrow> error + jsobj" where
  "setting_step setting field val =
     (if field = ''adControl'' then
        (case at_key adControlEnum (prop_of setting ''adControl'') of
           Inl e \<Rightarrow> Inl e
         | Inr code \<Rightarrow> Inr (assign ''adControl'' code val))
      else if field = ''cookieControl'' then
        (case at_key cookieControlEnum (prop_of setting ''cookieControl'') of
           Inl e \<Rightarrow> Inl e
         | Inr code \<Rightarrow> Inr (assign ''cookieControl'' code val))
      else if in_op field val then Inr (assign field (prop_of setting field) val)
      else Inr val)"

fun copy_setting_fields :: "jsobj \<Rightarrow> string list \<Rightarrow> jsobj \<Rightarrow> error + jsobj" where
  "copy_setting_fields setting [] val = Inr val"
| "copy_setting_fields setting (field # rest) val =
     (case setting_step setting field val of
        Inl e \<Rightarrow> Inl e
      | Inr val' \<Rightarrow> copy_setting_fields setting rest val')"

text \<open>
  \<^verbatim>\<open>Object.assign({}, siteSettingDefaults, {hostPattern})\<close> overwrites the first default in place.
  The loop runs before the object literal of the result is evaluated, so an error of the loop
  comes before any request for an object id.
\<close>

definition createSiteSettingsData ::
  "jsval \<Rightarrow> jsobj \<Rightarrow> world \<Rightarrow> sync_item outcome \<times> world" where
  "createSiteSettingsData hostPattern setting w =
     (case copy_setting_fields setting (for_in_keys setting)
             (set_prop ''hostPattern'' hostPattern siteSettingDefaults) of
        Inl e \<Rightarrow> (Throw e, w)
      | Inr val \<Rightarrow>
          (let (objectId, w') = objectId_or_new setting [Str ''siteSettings'', hostPattern] w
           in (Ok \<lparr>item_name = ''siteSetting'', item_objectId = objectId, item_value = Obj val\<rparr>,
               w')))"

subsection \<open>deepArrayify and ipcSafeObject\<close>

text \<open>
  \<^verbatim>\<open>Object.assign({}, x)\<close>: a fresh plain object with the own enumerable properties of \<open>x\<close>.
  Arrays, strings and typed arrays have their elements under the decimal indices; \<^verbatim>\<open>null\<close>,
  \<^verbatim>\<open>undefined\<close>, numbers, booleans and functions have none.
\<close>

fun object_assign :: "jsval \<Rightarrow> jsobj" where
  "object_assign (Obj fs) = fs"
| "object_assign (Arr xs) = zip (map show_nat [0 ..< length xs]) xs"
| "object_assign (Str s) = zip (map show_nat [0 ..< length s]) (map (\<lambda>c. Str [c]) s)"
| "object_assign (Bytes bs) =
     zip (map show_nat [0 ..< length bs]) (map (\<lambda>b. Num (uint b)) bs)"
| "object_assign _ = []"

text \<open>
  The loop body of \<^verbatim>\<open>deepArrayify\<close> per key \<open>k\<close> of the copy (every key of a fresh plain object
  is its own, so \<^verbatim>\<open>has(k)\<close> holds): an \<^verbatim>\<open>Array\<close> is skipped, a \<^verbatim>\<open>Uint8Array\<close> becomes
  \<^verbatim>\<open>Array.from\<close> of itself, and any other value whose \<^verbatim>\<open>typeof\<close> is \<^verbatim>\<open>'object'\<close> (a plain
  object, and also \<^verbatim>\<open>null\<close>) is replaced by \<^verbatim>\<open>deepArrayify(Object.assign({}, value))\<close>.
\<close>

function deepArrayify :: "jsval \<Rightarrow> jsval" where
  "deepArrayify sourceObject =
     Obj (map (\<lambda>(k, v). (k,
            case v of
              Arr xs \<Rightarrow> v
            | Bytes bs \<Rightarrow> array_from bs
            | Obj fs \<Rightarrow> deepArrayify (Obj (object_assign v))
            | Null \<Rightarrow> deepArrayify (Obj (object_assign v))
            | _ \<Rightarrow> v))
          (object_assign sourceObject))"
  by pat_completeness auto
termination
proof (relation "measure size")
  have in_fields: "Suc (size v) < size (Obj fs)" if "(k, v) \<in> set fs"
    for k :: string and v :: jsval and fs
    using that by (induction fs) auto
  have in_elements: "Suc (size v) < size (Arr xs)" if "v \<in> set xs" for v :: jsval and xs
    using that by (induction xs) auto
  have smaller: "Suc (size v) < size src"
    if "(k, v) \<in> set (object_assign src)" and "typeof_object v" for k v src
  proof (cases src)
    case (Obj fs)
    with that show ?thesis by (simp add: in_fields del: jsval.size)
  next
    case (Arr xs)
    with that have "v \<in> set xs" by (auto dest: set_zip_rightD)
    with Arr show ?thesis by (simp add: in_elements del: jsval.size)
  next
    case (Str s)
    with that show ?thesis by (auto dest!: set_zip_rightD)
  next
    case (Bytes bs)
    with that show ?thesis by (auto dest!: set_zip_rightD)
  qed (use that in auto)
  {
    fix sourceObject :: jsval and x :: "string \<times> jsval" and k v
    assume "x \<in> set (object_assign sourceObject)" "(k, v) = x" "v = Null"
    then show "(Obj (object_assign v), sourceObject) \<in> measure size"
      using smaller [of k v sourceObject] by auto
  next
    fix sourceObject :: jsval and x :: "string \<times> jsval" and k v fs
    assume "x \<in> set (object_assign sourceObject)" "(k, v) = x" "v = Obj fs"
    then show "(Obj (object_assign v), sourceObject) \<in> measure size"
      using smaller [of k v sourceObject] by auto
  }
qed simp

declare deepArrayify.simps [simp del]

definition ipcSafeObject :: "jsval \<Rightarrow> jsval" where
  "ipcSafeObject object = deepArrayify object"

text \<open>Reading a value along a path of property names through nested plain objects.\<close>

fun at_path :: "jsval \<Rightarrow> string list \<Rightarrow> jsval option" where
  "at_path v [] = Some v"
| "at_path (Obj fs) (k # ks) = (case map_of fs k of None \<Rightarrow> None | Some v \<Rightarrow> at_path v ks)"
| "at_path _ (k # ks) = None"

subsection \<open>The inverse enum table\<close>

text \<open>
  Modelled from the spec: the inverse of the \<^verbatim>\<open>adControl\<close> translation. The handler of
  \<^verbatim>\<open>RESOLVED_SYNC_RECORDS\<close> hands every record to \<^verbatim>\<open>syncUtil.applySyncRecord\<close>, which is not
  part of the sources at hand. The spec has the enum fields "translated through a fixed
  bidirectional string to small-integer table", so the inverse reads the table of
  \<^verbatim>\<open>createSiteSettingsData\<close> from the integer to the string.
\<close>

definition adControl_inverse :: "jsval \<Rightarrow> jsval" where
  "adControl_inverse code =
     (case find (\<lambda>(k, v). v = code) adControlEnum of
        Some (k, v) \<Rightarrow> Str k
      | None \<Rightarrow> Undefined)"

section \<open>sync.js\<close>

subsection \<open>sendSyncRecords\<close>

text \<open>
  \<open>data\<close> is the array the callers build; an element is \<open>None\<close> where a builder returned
  \<^verbatim>\<open>undefined\<close>. In \<^verbatim>\<open>syncUtil.CATEGORY_MAP[data[0].name]\<close> the key \<^verbatim>\<open>data[0].name\<close> is
  evaluated first, then the property is read off \<^verbatim>\<open>syncUtil.CATEGORY_MAP\<close>; both come before
  the elements are looked at one by one.
\<close>

definition sendSyncRecords ::
  "write_action \<Rightarrow> sync_item option list \<Rightarrow> world \<Rightarrow> unit outcome \<times> world" where
  "sendSyncRecords action data w =
     (if \<not> truthy (deviceId w) then
        (Throw (Error ''Cannot build a sync record because deviceId is not set''), w)
      else
        (case data of
           [] \<Rightarrow> (Ok (), w)
         | None # rest \<Rightarrow> (Throw (TypeError ''Cannot read property name of undefined''), w)
         | Some first # rest \<Rightarrow>
             (case CATEGORY_MAP of
                None \<Rightarrow>
                  (Throw (TypeError (''Cannot read property '' @ item_name first
                                       @ '' of undefined'')), w)
              | Some table \<Rightarrow>
                  (let category = prop_of table (item_name first) in
                   (Ok (),
                    w\<lparr>channel := channel w @
                        [SEND_SYNC_RECORDS category
                           (map (\<lambda>item.
                                   case item of
                                     None \<Rightarrow> None
                                   | Some item \<Rightarrow>
                                       if item_name item = [] \<or> \<not> truthy (item_value item)
                                       then None
                                       else Some \<lparr>rec_action = action,
                                                  rec_deviceId = deviceId w,
                                                  rec_objectId = item_objectId item,
                                                  rec_payload =
                                                    (item_name item, item_value item)\<rparr>)
                                 data)]\<rparr>)))))"

subsection \<open>doAction\<close>

datatype action_type =
    SYNC_ADD_SITE
  | SYNC_UPDATE_SITE
  | SYNC_REMOVE_SITE
  | SYNC_CLEAR_HISTORY
  | SYNC_ADD_SITE_SETTING
  | SYNC_UPDATE_SITE_SETTING
  | SYNC_REMOVE_SITE_SETTING
  | SYNC_CLEAR_SITE_SETTINGS
  | OTHER_ACTION

record action =
  actionType :: action_type
  action_item :: ival
  action_hostPattern :: jsval

text \<open>
  The text \<^verbatim>\<open>`Missing object ID! ${action.item.toJS()}`\<close> is made before \<^verbatim>\<open>log\<close> is called.
\<close>

definition log_missing_id :: "ival \<Rightarrow> world \<Rightarrow> unit outcome \<times> world" where
  "log_missing_id item w =
     (case to_string (toJS item) of
        Inl e \<Rightarrow> (Throw e, w)
      | Inr s \<Rightarrow> (Ok (), log (''Missing object ID! '' @ s) w))"

text \<open>
  The tests of \<^verbatim>\<open>doAction\<close> by the shape of \<^verbatim>\<open>action.item\<close>: an Immutable map goes on if its
  \<^verbatim>\<open>objectId\<close> entry is truthy; an Immutable list has no such entry; any other value is falsy
  or has no \<^verbatim>\<open>toJS\<close>, unless it is a plain object with a truthy property \<^verbatim>\<open>toJS\<close>, which has
  no method \<^verbatim>\<open>get\<close>. The arguments of \<^verbatim>\<open>sendSyncRecords\<close> and of \<^verbatim>\<open>sender.send\<close> are evaluated
  before the call, so the builder runs first and a failing read of \<^verbatim>\<open>syncUtil.CATEGORY_MAP\<close>
  sends nothing.
\<close>

definition doAction :: "action \<Rightarrow> world \<Rightarrow> unit outcome \<times> world" where
  "doAction action w =
     (if \<not> is_truthy (action_item action) \<or> \<not> has_toJS (action_item action) then (Ok (), w)
      else
        (case action_item action of
           Plain v \<Rightarrow> (Throw (TypeError ''action.item.get is not a function''), w)
         | ImmutableList xs \<Rightarrow> log_missing_id (action_item action) w
         | ImmutableMap item \<Rightarrow>
             if \<not> is_truthy (map_get item ''objectId'')
             then log_missing_id (action_item action) w
             else
               (case actionType action of
                  SYNC_ADD_SITE \<Rightarrow>
                    and_then (createSiteData (toJS_map item) Undefined)
                      (\<lambda>built. sendSyncRecords CREATE [built]) w
                | SYNC_UPDATE_SITE \<Rightarrow>
                    and_then (createSiteData (toJS_map item) Undefined)
                      (\<lambda>built. sendSyncRecords UPDATE [built]) w
                | SYNC_REMOVE_SITE \<Rightarrow>
                    and_then (createSiteData (toJS_map item) Undefined)
                      (\<lambda>built. sendSyncRecords DELETE [built]) w
                | SYNC_CLEAR_HISTORY \<Rightarrow>
                    (case CATEGORY_MAP of
                       None \<Rightarrow>
                         (Throw (TypeError ''Cannot read property historySite of undefined''), w)
                     | Some table \<Rightarrow>
                         (Ok (), w\<lparr>channel := channel w @
                            [DELETE_SYNC_CATEGORY (prop_of table ''historySite'')]\<rparr>))
                | SYNC_ADD_SITE_SETTING \<Rightarrow>
                    if isSyncable ''siteSetting'' (action_item action) = Inr True then
                      and_then (createSiteSettingsData (action_hostPattern action) (toJS_map item))
                        (\<lambda>built. sendSyncRecords CREATE [Some built]) w
                    else (Ok (), w)
                | SYNC_UPDATE_SITE_SETTING \<Rightarrow>
                    if isSyncable ''siteSetting'' (action_item action) = Inr True then
                      and_then (createSiteSettingsData (action_hostPattern action) (toJS_map item))
                        (\<lambda>built. sendSyncRecords UPDATE [Some built]) w
                    else (Ok (), w)
                | SYNC_REMOVE_SITE_SETTING \<Rightarrow>
                    and_then (createSiteSettingsData (action_hostPattern action) (toJS_map item))
                      (\<lambda>built. sendSyncRecords DELETE [Some built]) w
                | SYNC_CLEAR_SITE_SETTINGS \<Rightarrow>
                    (Ok (), w\<lparr>channel := channel w @ [DELETE_SYNC_SITE_SETTINGS]\<rparr>)
                | OTHER_ACTION \<Rightarrow> (Ok (), w))))"

subsection \<open>onSyncReady\<close>

text \<open>
  The callback of \<^verbatim>\<open>sites.forEach((site, i) => ...)\<close>. A falsy entry is skipped; an Immutable
  map is looked at; an Immutable list has neither \<^verbatim>\<open>objectId\<close> nor \<^verbatim>\<open>tags\<close>, so it is not
  syncable; any other truthy value has no method \<^verbatim>\<open>get\<close>.
\<close>

definition sync_site :: "ival \<Rightarrow> nat \<Rightarrow> world \<Rightarrow> unit outcome \<times> world" where
  "sync_site site i w =
     (case site of
        ImmutableMap m \<Rightarrow>
          if \<not> is_truthy (map_get m ''objectId'') then
            (case isSyncable ''bookmark'' site of
               Inl e \<Rightarrow> (Throw e, w)
             | Inr True \<Rightarrow>
                 and_then (createSiteData (toJS_map m) (Num (int i)))
                   (\<lambda>built. sendSyncRecords CREATE [built]) w
             | Inr False \<Rightarrow> (Ok (), w))
          else (Ok (), w)
      | ImmutableList xs \<Rightarrow> (Ok (), w)
      | Plain v \<Rightarrow>
          if truthy v then (Throw (TypeError ''site.get is not a function''), w)
          else (Ok (), w))"

fun forEach_site :: "nat \<Rightarrow> ival list \<Rightarrow> world \<Rightarrow> unit outcome \<times> world" where
  "forEach_site i [] w = (Ok (), w)"
| "forEach_site i (site # rest) w =
     and_then (sync_site site i) (\<lambda>u. forEach_site (Suc i) rest) w"

text \<open>
  \<^verbatim>\<open>appState.get('siteSettings').filter((value, key) => syncUtil.isSyncable('siteSetting', value))\<close>:
  the entries are asked in iteration order, and an error of the callback ends the filter. Only
  an Immutable map is syncable as a site setting, so what is kept is maps.
\<close>

fun filter_syncable :: "imap \<Rightarrow> error + (string \<times> imap) list" where
  "filter_syncable [] = Inr []"
| "filter_syncable ((key, val) # rest) =
     (case isSyncable ''siteSetting'' val of
        Inl e \<Rightarrow> Inl e
      | Inr keep \<Rightarrow>
          (case filter_syncable rest of
             Inl e \<Rightarrow> Inl e
           | Inr kept \<Rightarrow>
               (case val of
                  ImmutableMap m \<Rightarrow> Inr (if keep then (key, m) # kept else kept)
                | _ \<Rightarrow> Inr kept)))"

text \<open>
  \<^verbatim>\<open>Object.keys(siteSettings).map((item) => createSiteSettingsData(item, siteSettings[item]))\<close>
  over the properties of the plain object \<^verbatim>\<open>siteSettings\<close>; an error of a builder ends it.
\<close>

fun map_siteSettings ::
  "(string \<times> jsobj) list \<Rightarrow> world \<Rightarrow> sync_item option list outcome \<times> world" where
  "map_siteSettings [] w = (Ok [], w)"
| "map_siteSettings ((hostPattern, setting) # rest) w =
     and_then (createSiteSettingsData (Str hostPattern) setting)
       (\<lambda>built. and_then (map_siteSettings rest)
          (\<lambda>others w'. (Ok (Some built # others), w'))) w"

text \<open>\<^verbatim>\<open>poll\<close>: fetch from the stored watermark, then move the watermark to now and save it.\<close>

definition poll :: "imported \<Rightarrow> world \<Rightarrow> world" where
  "poll imp w =
     (let w1 = w\<lparr>channel := channel w @ [FETCH_SYNC_RECORDS (categoryNames imp) (startAt w)]\<rparr>;
          w2 = w1\<lparr>startAt := Num (now w1)\<rparr>
      in w2\<lparr>dispatched := dispatched w2 @ [AppSaveSyncInitData Null Null (startAt w2)]\<rparr>)"

text \<open>
  The plain object \<^verbatim>\<open>siteSettings\<close> is the \<^verbatim>\<open>toJS()\<close> of the filtered map, so
  \<^verbatim>\<open>Object.keys\<close> lists the host patterns that are array indices first.
\<close>

definition onSyncReady :: "imported \<Rightarrow> bool \<Rightarrow> world \<Rightarrow> unit outcome \<times> world" where
  "onSyncReady imp isFirstRun w0 =
     and_then
       (\<lambda>w. if isFirstRun then
               (let (objectId, w') = newObjectId [Str ''sync''] w
                in sendSyncRecords CREATE
                     [Some \<lparr>item_name = ''device'',
                            item_objectId = objectId,
                            item_value = Obj [(''name'', Str ''browser-laptop'')]\<rparr>] w')
             else (Ok (), w))
       (\<lambda>u. and_then
          (forEach_site 0 (case sites (appState w0) of None \<Rightarrow> [] | Some l \<Rightarrow> l))
       (\<lambda>u. and_then
          (\<lambda>w. case siteSettings (appState w0) of
                  None \<Rightarrow> (Throw (TypeError ''Cannot read property filter of undefined''), w)
                | Some settings \<Rightarrow>
                    (case filter_syncable settings of
                       Inl e \<Rightarrow> (Throw e, w)
                     | Inr kept \<Rightarrow>
                         and_then
                           (map_siteSettings
                              (plain_order (map (\<lambda>(key, m). (key, toJS_map m)) kept)))
                           (sendSyncRecords UPDATE) w))
       (\<lambda>u w.
          (let w1 = w\<lparr>listeners := listeners w @ [OnGetExistingObjects, OnResolvedSyncRecords]\<rparr>;
               w2 = w1\<lparr>startAt := or_else (lastFetchTimestamp (appState w0)) (Num 0)\<rparr>;
               w3 = poll imp w2
           in (Ok (), w3\<lparr>pollIntervalId := Some (clock w3 + fetchInterval imp)\<rparr>)))))
       (w0\<lparr>listeners := listeners w0 @ [DispatcherCallback]\<rparr>)"


text \<open>\<^verbatim>\<open>stop\<close>: \<^verbatim>\<open>clearInterval(pollIntervalId)\<close>.\<close>

definition stop :: "world \<Rightarrow> world" where
  "stop w = w\<lparr>pollIntervalId := None\<rparr>"

section \<open>Vocabulary of the properties\<close>

text \<open>The records carried by the \<^verbatim>\<open>SEND_SYNC_RECORDS\<close> messages of a channel history, in order.\<close>

definition records_sent :: "message list \<Rightarrow> sync_record option list" where
  "records_sent msgs =
     concat (map (\<lambda>m. case m of SEND_SYNC_RECORDS category records \<Rightarrow> records | _ \<Rightarrow> []) msgs)"

text \<open>
  \<open>ids_only w w'\<close>: the world \<open>w'\<close> differs from \<open>w\<close> at most in the random octets drawn and in
  the requests made of the application. This is all an object-id assignment changes.
\<close>

definition ids_only :: "world \<Rightarrow> world \<Rightarrow> bool" where
  "ids_only w w' = (\<exists>n ds. w' = w\<lparr>drawn := n, dispatched := ds\<rparr>)"

text \<open>
  \<open>fresh_id w\<close> is the id the next \<^verbatim>\<open>newObjectId\<close> makes in the world \<open>w\<close>;
  \<open>id_requests\<close> and \<open>saved_watermarks\<close> read the requests \<^verbatim>\<open>appActions.setObjectId(id, path)\<close>
  and the watermarks given to \<^verbatim>\<open>appActions.saveSyncInitData\<close> off a history of requests;
  \<open>fetches\<close> reads the \<^verbatim>\<open>FETCH_SYNC_RECORDS\<close> requests off a channel history.
  \<open>backfilled w reqs sends w'\<close>: from \<open>w\<close> to \<open>w'\<close> exactly the id requests \<open>reqs\<close> were made
  and the record messages \<open>sends\<close> were sent, in this order, and nothing else changed but the
  count of random octets drawn.
\<close>

definition fresh_id :: "world \<Rightarrow> jsval" where
  "fresh_id w = array_from (map (entropy w) [drawn w ..< drawn w + 16])"

definition id_requests :: "app_action list \<Rightarrow> (jsval \<times> jsval list) list" where
  "id_requests ds =
     concat (map (\<lambda>d. case d of AppSetObjectId objectId objectPath \<Rightarrow> [(objectId, objectPath)]
                        | AppSaveSyncInitData seed device since \<Rightarrow> []) ds)"

definition saved_watermarks :: "app_action list \<Rightarrow> jsval list" where
  "saved_watermarks ds =
     concat (map (\<lambda>d. case d of AppSaveSyncInitData seed device since \<Rightarrow> [since]
                        | AppSetObjectId objectId objectPath \<Rightarrow> []) ds)"

definition fetches :: "message list \<Rightarrow> (string list \<times> jsval) list" where
  "fetches msgs =
     concat (map (\<lambda>m. case m of FETCH_SYNC_RECORDS names since \<Rightarrow> [(names, since)] | _ \<Rightarrow> []) msgs)"

definition backfilled ::
  "world \<Rightarrow> (jsval \<times> jsval list) list \<Rightarrow> (jsval \<times> sync_record option list) list \<Rightarrow> world \<Rightarrow> bool"
  where
  "backfilled w reqs sends w' =
     (\<exists>n. w' = w\<lparr>drawn := n,
                   dispatched := dispatched w @ map (\<lambda>(objectId, p). AppSetObjectId objectId p) reqs,
                   channel := channel w @ map (\<lambda>(c, rs). SEND_SYNC_RECORDS c rs) sends\<rparr>)"

definition changed_by_backfill :: "world \<Rightarrow> world \<Rightarrow> bool" where
  "changed_by_backfill w w' = (\<exists>reqs sends. backfilled w reqs sends w')"

text \<open>
  A concrete installation for the examples: a device id has been established, the clock stands
  at 5 seconds, the random source yields the octets 0, 1, 2, ... and nothing has happened yet.
\<close>

definition example_imported :: imported where
  "example_imported =
     \<lparr>categoryNames = [''BOOKMARKS'', ''HISTORY_SITES'', ''PREFERENCES''],
      fetchInterval = 180000\<rparr>"

definition example_world :: world where
  "example_world =
     \<lparr>deviceId = Arr [Num 7],
      pollIntervalId = None,
      startAt = Undefined,
      appState = \<lparr>sites = Some [], siteSettings = Some [], lastFetchTimestamp = Undefined\<rparr>,
      clock = 5000,
      entropy = (\<lambda>n. of_nat n),
      drawn = 0,
      channel = [],
      dispatched = [],
      console = [],
      listeners = []\<rparr>"

text \<open>
  The example installation with one bookmark and one history entry that have no object id yet,
  and the same installation at a later start, when the bookmark carries its object id.
\<close>

definition example_first_run :: world where
  "example_first_run =
     example_world\<lparr>appState :=
       \<lparr>sites = Some [ImmutableMap [(''location'', Plain (Str ''https://a.example/'')),
                                     (''tags'', ImmutableList [Plain (Str ''bookmark'')])],
                       ImmutableMap [(''location'', Plain (Str ''https://h.example/''))]],
        siteSettings = Some [],
        lastFetchTimestamp = Undefined\<rparr>\<rparr>"


section \<open>Transport-safe serialisation\<close>

lemma deepArrayify_unfold:
  "deepArrayify y = Obj (map (\<lambda>(k, v). (k, case v of
              Arr xs \<Rightarrow> v
            | Bytes bs \<Rightarrow> array_from bs
            | Obj fs \<Rightarrow> deepArrayify (Obj (object_assign v))
            | Null \<Rightarrow> deepArrayify (Obj (object_assign v))
            | _ \<Rightarrow> v)) (object_assign y))"
  by (subst deepArrayify.simps) (rule refl)

lemma deepArrayify_idempotent: "deepArrayify (deepArrayify x) = deepArrayify x"
proof (induction x rule: deepArrayify.induct)
  case (1 src)
  define step where "step = (\<lambda>v. case v of
              Arr xs \<Rightarrow> v
            | Bytes bs \<Rightarrow> array_from bs
            | Obj fs \<Rightarrow> deepArrayify (Obj (object_assign v))
            | Null \<Rightarrow> deepArrayify (Obj (object_assign v))
            | _ \<Rightarrow> v)"
  have unfold: "deepArrayify y = Obj (map (\<lambda>(k, v). (k, step v)) (object_assign y))" for y
    by (subst deepArrayify.simps) (simp add: step_def)
  have step_Obj: "step (Obj fs) = deepArrayify (Obj fs)" for fs
    by (simp add: step_def)
  have step_Null: "step Null = Obj []"
    by (simp add: step_def unfold)
  have "step (step v) = step v" if "(k, v) \<in> set (object_assign src)" for k v
  proof (cases v)
    case Null
    then show ?thesis by (simp add: step_Null step_Obj unfold)
  next
    case (Obj fs)
    from "1.IH"(2) [OF that refl Obj]
    have "deepArrayify (deepArrayify v) = deepArrayify v"
      by (simp add: Obj)
    moreover obtain gs where "deepArrayify v = Obj gs"
      by (simp add: unfold)
    ultimately show ?thesis
      using Obj by (simp add: step_Obj)
  qed (simp_all add: step_def array_from_def)
  then have "map (\<lambda>(k, v). (k, step v)) (map (\<lambda>(k, v). (k, step v)) (object_assign src))
           = map (\<lambda>(k, v). (k, step v)) (object_assign src)"
    by auto
  then show ?case
    by (simp add: unfold)
qed

lemma map_of_map_value:
  "map_of (map (\<lambda>(k, v). (k, f v)) fs) k = map_option f (map_of fs k)"
  by (induction fs) auto

lemma deepArrayify_at_path:
  "at_path (Obj fs) (k # ks) = Some (Bytes bs) \<Longrightarrow>
   at_path (deepArrayify (Obj fs)) (k # ks) = Some (Arr (map (\<lambda>b. Num (uint b)) bs))"
proof (induction ks arbitrary: fs k)
  case Nil
  then show ?case
    by (subst deepArrayify_unfold)
       (auto simp: map_of_map_value array_from_def split: option.splits)
next
  case (Cons k' ks)
  from Cons.prems obtain v where v: "map_of fs k = Some v" "at_path v (k' # ks) = Some (Bytes bs)"
    by (auto split: option.splits)
  then obtain gs where gs: "v = Obj gs"
    by (cases v) auto
  from Cons.IH [of gs k'] v gs
  have "at_path (deepArrayify (Obj gs)) (k' # ks) = Some (Arr (map (\<lambda>b. Num (uint b)) bs))"
    by simp
  then show ?case
    using v gs
    by (subst deepArrayify_unfold) (simp add: map_of_map_value)
qed

text \<open>
  Claim C3. For every record object with a binary-buffer field (a \<^verbatim>\<open>Uint8Array\<close> reached through
  any chain of property names, of 16 octets or of any other length), \<^verbatim>\<open>ipcSafeObject\<close> returns
  a structure in which that field is the plain array of the same octets as numbers, in the
  same order; and applying \<^verbatim>\<open>ipcSafeObject\<close> twice gives the same as applying it once, for
  every input.
\<close>

theorem ipcSafeObject_bytes_idempotent:
  "(at_path (Obj fs) (k # ks) = Some (Bytes bs) \<longrightarrow>
      at_path (ipcSafeObject (Obj fs)) (k # ks) = Some (Arr (map (\<lambda>b. Num (uint b)) bs)))
   \<and> ipcSafeObject (ipcSafeObject x) = ipcSafeObject x"
  by (simp add: ipcSafeObject_def deepArrayify_idempotent deepArrayify_at_path)

theorem ipcSafeObject_bytes_idempotent_witness:
  "at_path (Obj [(''action'', Num 0),
                 (''objectId'', Bytes [0, 1, 2, 3, 4, 5, 6, 7, 8, 9, 10, 11, 12, 13, 14, 255])])
     [''objectId'']
     = Some (Bytes [0, 1, 2, 3, 4, 5, 6, 7, 8, 9, 10, 11, 12, 13, 14, 255])
   \<and> at_path (ipcSafeObject (Obj [(''action'', Num 0),
                 (''objectId'', Bytes [0, 1, 2, 3, 4, 5, 6, 7, 8, 9, 10, 11, 12, 13, 14, 255])]))
     [''objectId'']
     = Some (Arr [Num 0, Num 1, Num 2, Num 3, Num 4, Num 5, Num 6, Num 7, Num 8, Num 9, Num 10,
                  Num 11, Num 12, Num 13, Num 14, Num 255])"
  using ipcSafeObject_bytes_idempotent
    [of "[(''action'', Num 0),
          (''objectId'', Bytes [0, 1, 2, 3, 4, 5, 6, 7, 8, 9, 10, 11, 12, 13, 14, 255])]"
        "''objectId''" "[]" "[0, 1, 2, 3, 4, 5, 6, 7, 8, 9, 10, 11, 12, 13, 14, 255]"]
  by simp

section \<open>Sending needs a device id\<close>

lemma records_sent_append [simp]:
  "records_sent (xs @ ys) = records_sent xs @ records_sent ys"
  by (simp add: records_sent_def)

lemma records_sent_simps [simp]:
  "records_sent [] = []"
  "records_sent (SEND_SYNC_RECORDS c rs # ms) = rs @ records_sent ms"
  "records_sent (DELETE_SYNC_CATEGORY c # ms) = records_sent ms"
  "records_sent (DELETE_SYNC_SITE_SETTINGS # ms) = records_sent ms"
  "records_sent (FETCH_SYNC_RECORDS ns s # ms) = records_sent ms"
  by (simp_all add: records_sent_def)


lemma and_then_cases:
  "and_then m f w = (case m w of (Ok x, w1) \<Rightarrow> f x w1 | (Throw e, w1) \<Rightarrow> (Throw e, w1))"
  by (simp add: and_then_def)

lemma newObjectId_eq:
  "newObjectId p w =
     (array_from (map (entropy w) [drawn w ..< drawn w + 16]),
      w\<lparr>drawn := drawn w + 16,
        dispatched := dispatched w @
          [AppSetObjectId (array_from (map (entropy w) [drawn w ..< drawn w + 16])) p]\<rparr>)"
  by (simp add: newObjectId_def randomBytes_def Let_def)

lemma ids_only_refl [simp]: "ids_only w w"
  unfolding ids_only_def by (rule exI [of _ "drawn w"], rule exI [of _ "dispatched w"]) simp

lemma ids_only_trans: "ids_only w w1 \<Longrightarrow> ids_only w1 w2 \<Longrightarrow> ids_only w w2"
  unfolding ids_only_def by (elim exE, simp) blast

lemma ids_only_fields:
  assumes "ids_only w w'"
  shows "deviceId w' = deviceId w" "channel w' = channel w" "clock w' = clock w"
    "entropy w' = entropy w" "appState w' = appState w" "startAt w' = startAt w"
    "pollIntervalId w' = pollIntervalId w" "listeners w' = listeners w" "console w' = console w"
  using assms unfolding ids_only_def by auto

lemma newObjectId_ids_only: "ids_only w (snd (newObjectId p w))"
  unfolding ids_only_def newObjectId_eq by auto

lemma objectId_or_new_ids_only: "ids_only w (snd (objectId_or_new obj p w))"
  by (simp add: objectId_or_new_def newObjectId_ids_only)

lemma createSiteData_ids_only: "ids_only w (snd (createSiteData site idx w))"
  using objectId_or_new_ids_only [of w site "[Str ''sites'', idx]"]
  by (auto simp: createSiteData_def Let_def
           split: sum.splits bool.splits prod.splits)

lemma createSiteSettingsData_ids_only: "ids_only w (snd (createSiteSettingsData hp setting w))"
  using objectId_or_new_ids_only [of w setting "[Str ''siteSettings'', hp]"]
  by (auto simp: createSiteSettingsData_def Let_def split: sum.splits prod.splits)

lemma map_siteSettings_ids_only: "ids_only w (snd (map_siteSettings settings w))"
proof (induction settings arbitrary: w)
  case Nil
  then show ?case by simp
next
  case (Cons a settings)
  obtain hp setting where a: "a = (hp, setting)" by (cases a)
  obtain r w1 where b: "createSiteSettingsData (Str hp) setting w = (r, w1)"
    by (cases "createSiteSettingsData (Str hp) setting w")
  obtain r2 w2 where o: "map_siteSettings settings w1 = (r2, w2)"
    by (cases "map_siteSettings settings w1")
  from createSiteSettingsData_ids_only [of w "Str hp" setting] b have 1: "ids_only w w1" by simp
  moreover from Cons.IH [of w1] o have "ids_only w1 w2" by simp
  ultimately have "ids_only w w2" by (rule ids_only_trans)
  with 1 a b o show ?case
    by (cases r; cases r2) (simp_all add: and_then_def)
qed

lemma sendSyncRecords_no_deviceId:
  "\<not> truthy (deviceId w) \<Longrightarrow>
     sendSyncRecords action data w =
       (Throw (Error ''Cannot build a sync record because deviceId is not set''), w)"
  by (simp add: sendSyncRecords_def)

text \<open>Without a device id the world changes at most by ids, and by non-record messages.\<close>

lemma send_after_build_no_deviceId:
  assumes "\<not> truthy (deviceId w)"
  shows "ids_only w (snd (and_then (createSiteData m idx) (\<lambda>built. sendSyncRecords a [built]) w))"
proof (cases "createSiteData m idx w")
  case (Pair r w1)
  with createSiteData_ids_only [of w m idx] have i: "ids_only w w1" by simp
  then have "\<not> truthy (deviceId w1)" using assms by (simp add: ids_only_fields)
  then show ?thesis using Pair i
    by (cases r) (simp_all add: and_then_def sendSyncRecords_no_deviceId)
qed

lemma send_setting_no_deviceId:
  assumes "\<not> truthy (deviceId w)"
  shows "ids_only w (snd (and_then (createSiteSettingsData hp m)
                            (\<lambda>built. sendSyncRecords a [Some built]) w))"
proof (cases "createSiteSettingsData hp m w")
  case (Pair r w1)
  with createSiteSettingsData_ids_only [of w hp m] have i: "ids_only w w1" by simp
  then have "\<not> truthy (deviceId w1)" using assms by (simp add: ids_only_fields)
  then show ?thesis using Pair i
    by (cases r) (simp_all add: and_then_def sendSyncRecords_no_deviceId)
qed

lemma sync_site_no_deviceId:
  assumes "\<not> truthy (deviceId w)"
  shows "ids_only w (snd (sync_site site i w))"
  by (cases site)
     (auto simp: sync_site_def send_after_build_no_deviceId [OF assms]
           split: sum.splits bool.splits)

lemma forEach_site_no_deviceId:
  "\<not> truthy (deviceId w) \<Longrightarrow> ids_only w (snd (forEach_site i ss w))"
proof (induction ss arbitrary: i w)
  case Nil
  then show ?case by simp
next
  case (Cons site rest)
  obtain r w1 where s: "sync_site site i w = (r, w1)" by (cases "sync_site site i w")
  with sync_site_no_deviceId [OF Cons.prems, of site i] have i1: "ids_only w w1" by simp
  then have "\<not> truthy (deviceId w1)" using Cons.prems by (simp add: ids_only_fields)
  from Cons.IH [OF this, of "Suc i"] have "ids_only w1 (snd (forEach_site (Suc i) rest w1))" .
  with i1 s show ?case
    by (cases r) (auto simp: and_then_def intro: ids_only_trans)
qed

lemma log_missing_id_channel: "channel (snd (log_missing_id item w)) = channel w"
  by (simp add: log_missing_id_def log_def split: sum.splits)

lemma doAction_no_deviceId:
  assumes "\<not> truthy (deviceId w)"
  shows "records_sent (channel (snd (doAction a w))) = records_sent (channel w)"
proof (cases "action_item a")
  case (ImmutableMap m)
  show ?thesis
  proof (cases "is_truthy (map_get m ''objectId'')")
    case False
    with ImmutableMap show ?thesis by (simp add: doAction_def log_missing_id_channel)
  next
    case True
    note b = send_after_build_no_deviceId [OF assms, THEN ids_only_fields(2)]
    note s = send_setting_no_deviceId [OF assms, THEN ids_only_fields(2)]
    from ImmutableMap True show ?thesis
      by (cases "actionType a") (simp_all add: doAction_def b s split: option.splits)
  qed
qed (simp_all add: doAction_def log_missing_id_channel)

lemma onSyncReady_no_deviceId:
  assumes "\<not> truthy (deviceId w)"
  shows "channel (snd (onSyncReady imp isFirstRun w)) = channel w"
proof -
  let ?w0 = "w\<lparr>listeners := listeners w @ [DispatcherCallback]\<rparr>"
  have d0: "\<not> truthy (deviceId ?w0)" using assms by simp
  define first where "first = (\<lambda>w. if isFirstRun then
               (let (objectId, w') = newObjectId [Str ''sync''] w
                in sendSyncRecords CREATE
                     [Some \<lparr>item_name = ''device'',
                            item_objectId = objectId,
                            item_value = Obj [(''name'', Str ''browser-laptop'')]\<rparr>] w')
             else (Ok (), w))"
  have f: "ids_only v (snd (first v))" if "\<not> truthy (deviceId v)" for v
  proof (cases isFirstRun)
    case True
    obtain oid v1 where n: "newObjectId [Str ''sync''] v = (oid, v1)"
      by (cases "newObjectId [Str ''sync''] v")
    with newObjectId_ids_only [of v "[Str ''sync'']"] have i: "ids_only v v1" by simp
    then have "\<not> truthy (deviceId v1)" using that by (simp add: ids_only_fields)
    then show ?thesis using True n i
      by (simp add: first_def sendSyncRecords_no_deviceId)
  next
    case False
    then show ?thesis by (simp add: first_def)
  qed
  define third where "third = (\<lambda>v. case siteSettings (appState w) of
                  None \<Rightarrow> (Throw (TypeError ''Cannot read property filter of undefined''), v)
                | Some settings \<Rightarrow>
                    (case filter_syncable settings of
                       Inl e \<Rightarrow> (Throw e, v)
                     | Inr kept \<Rightarrow>
                         and_then
                           (map_siteSettings
                              (plain_order (map (\<lambda>(key, m). (key, toJS_map m)) kept)))
                           (sendSyncRecords UPDATE) v))"
  have t: "ids_only v (snd (third v)) \<and> (\<exists>e. fst (third v) = Throw e)"
    if "\<not> truthy (deviceId v)" for v
  proof (cases "siteSettings (appState w)")
    case None
    then show ?thesis by (simp add: third_def)
  next
    case (Some settings)
    show ?thesis
    proof (cases "filter_syncable settings")
      case (Inl e)
      with Some show ?thesis by (simp add: third_def)
    next
      case (Inr kept)
      let ?l = "plain_order (map (\<lambda>(key, m). (key, toJS_map m)) kept)"
      obtain r v1 where m: "map_siteSettings ?l v = (r, v1)"
        by (cases "map_siteSettings ?l v")
      with map_siteSettings_ids_only [of v ?l] have i: "ids_only v v1" by simp
      then have "\<not> truthy (deviceId v1)"
        using that by (simp add: ids_only_fields)
      then show ?thesis using Some Inr i m
        by (cases r) (simp_all add: third_def and_then_def sendSyncRecords_no_deviceId)
    qed
  qed
  obtain r1 w1 where 1: "first ?w0 = (r1, w1)" by (cases "first ?w0")
  with f [OF d0] have i1: "ids_only ?w0 w1" by simp
  then have d1: "\<not> truthy (deviceId w1)" using d0 by (simp add: ids_only_fields)
  let ?ss = "case sites (appState w) of None \<Rightarrow> [] | Some l \<Rightarrow> l"
  obtain r2 w2 where 2: "forEach_site 0 ?ss w1 = (r2, w2)"
    by (cases "forEach_site 0 ?ss w1")
  with forEach_site_no_deviceId [OF d1, of 0 ?ss] have i2: "ids_only w1 w2" by simp
  then have d2: "\<not> truthy (deviceId w2)" using d1 by (simp add: ids_only_fields)
  obtain r3 w3 where 3: "third w2 = (r3, w3)" by (cases "third w2")
  with t [OF d2] obtain e where i3: "ids_only w2 w3" and e: "r3 = Throw e" by auto
  have "channel (snd (onSyncReady imp isFirstRun w)) = channel w1 \<or>
        channel (snd (onSyncReady imp isFirstRun w)) = channel w2 \<or>
        channel (snd (onSyncReady imp isFirstRun w)) = channel w3"
    unfolding onSyncReady_def first_def [symmetric] third_def [symmetric]
    using 1 2 3 e
    by (cases r1; cases r2) (simp_all add: and_then_def)
  moreover have "channel w1 = channel w" "channel w2 = channel w" "channel w3 = channel w"
    using i1 i2 i3 by (simp_all add: ids_only_fields)
  ultimately show ?thesis by auto
qed

text \<open>
  Claim C2. If no device id is established (the module variable is \<^verbatim>\<open>null\<close>, or falsy in any
  other way) then \<^verbatim>\<open>sendSyncRecords\<close> throws for every action and every record list and leaves
  the channel, and all the rest of the world, as it was. No record reaches the channel by any
  other way either: an action dispatched to \<^verbatim>\<open>doAction\<close> adds no record to those sent so far,
  and \<^verbatim>\<open>onSyncReady\<close> sends nothing at all.
\<close>

theorem no_send_without_deviceId:
  assumes "\<not> truthy (deviceId w)"
  shows "sendSyncRecords action data w =
           (Throw (Error ''Cannot build a sync record because deviceId is not set''), w)
       \<and> records_sent (channel (snd (doAction a w))) = records_sent (channel w)
       \<and> channel (snd (onSyncReady imp isFirstRun w)) = channel w"
  using assms
  by (simp add: sendSyncRecords_no_deviceId doAction_no_deviceId onSyncReady_no_deviceId)

theorem no_send_without_deviceId_witness:
  "\<not> truthy (deviceId (example_world\<lparr>deviceId := Null\<rparr>))
   \<and> sendSyncRecords CREATE
        [Some \<lparr>item_name = ''device'', item_objectId = Arr [Num 1],
                item_value = Obj [(''name'', Str ''browser-laptop'')]\<rparr>]
        (example_world\<lparr>deviceId := Null\<rparr>)
      = (Throw (Error ''Cannot build a sync record because deviceId is not set''),
         example_world\<lparr>deviceId := Null\<rparr>)"
  using no_send_without_deviceId [of "example_world\<lparr>deviceId := Null\<rparr>" CREATE
      "[Some \<lparr>item_name = ''device'', item_objectId = Arr [Num 1],
               item_value = Obj [(''name'', Str ''browser-laptop'')]\<rparr>]"]
  by (simp add: example_world_def)

section \<open>Object ids\<close>

lemma map_of_set_prop:
  "map_of (set_prop k v obj) k' = (if k' = k then Some v else map_of obj k')"
  by (induction obj) auto

lemma get_set_prop: "get (set_prop k v obj) k = v"
  by (simp add: get_def map_of_set_prop)

lemma map_get_set_prop: "map_get (set_prop k v m) k = v"
  by (simp add: map_get_def map_of_set_prop)

lemma setObjectId_keeps:
  "is_truthy (map_get m ''objectId'') \<Longrightarrow>
     setObjectId (ImmutableMap m) w = (Ok (ImmutableMap m), w)"
  by (simp add: setObjectId_def)

lemma setObjectId_twice:
  assumes "setObjectId (ImmutableMap m) w = (r, w')"
  shows "\<exists>x'. r = Ok x' \<and> setObjectId x' w' = (Ok x', w')"
proof (cases "is_truthy (map_get m ''objectId'')")
  case True
  with assms have "r = Ok (ImmutableMap m)" "w' = w" by (simp_all add: setObjectId_def)
  with True show ?thesis by (simp add: setObjectId_keeps)
next
  case False
  with assms
  have "r = Ok (ImmutableMap (set_prop ''objectId'' (list_of_bytes (fst (randomBytes 16 w))) m))"
    by (auto simp: setObjectId_def split: prod.splits)
  then show ?thesis
    by (simp add: setObjectId_keeps map_get_set_prop list_of_bytes_def)
qed

text \<open>The definitions to unfold when a builder is run on a concrete object.\<close>

lemmas builder_defs =
  createSiteData_def createSiteSettingsData_def isSyncable_def objectId_or_new_def
  newObjectId_eq copy_site_fields_def setting_step_def for_in_keys_def
  siteData_initial_def siteSettingDefaults_def adControlEnum_def cookieControlEnum_def
  at_key_def in_op_def has_def get_def prop_of_def inherited_def assign_def or_else_def
  object_prototype_names_def object_prototype_functions_def array_from_def
  isPlainObj_def map_get_def map_has_def fromJS.simps

lemma objectId_or_new_keeps:
  "truthy (prop_of obj ''objectId'') \<Longrightarrow>
     objectId_or_new obj p w = (prop_of obj ''objectId'', w)"
  by (simp add: objectId_or_new_def)

lemma createSiteData_keeps:
  assumes "truthy (prop_of site ''objectId'')"
  shows "snd (createSiteData site idx w) = w"
    and "fst (createSiteData site idx w) = Ok (Some built) \<Longrightarrow>
           item_objectId built = prop_of site ''objectId''"
  using assms
  by (auto simp: createSiteData_def objectId_or_new_keeps Let_def
           split: sum.splits bool.splits if_splits)

lemma createSiteSettingsData_keeps:
  assumes "truthy (prop_of setting ''objectId'')"
  shows "snd (createSiteSettingsData hp setting w) = w"
    and "fst (createSiteSettingsData hp setting w) = Ok built \<Longrightarrow>
           item_objectId built = prop_of setting ''objectId''"
  using assms
  by (auto simp: createSiteSettingsData_def objectId_or_new_keeps Let_def split: sum.splits)

text \<open>
  Claim C4. Object-id assignment is idempotent. \<^verbatim>\<open>setObjectId\<close> returns an item that carries an
  object id as it is, and a second \<^verbatim>\<open>setObjectId\<close> on the result of a first returns that result
  again; both builders take the id an object carries (\<^verbatim>\<open>obj.objectId || newObjectId(path)\<close>).
  In each case the world stays as it was: no random octets are drawn, so no new id is made, and
  no request to write the state is issued.
\<close>

theorem objectId_assignment_idempotent:
  "(is_truthy (map_get m ''objectId'') \<longrightarrow>
      setObjectId (ImmutableMap m) w = (Ok (ImmutableMap m), w))
   \<and> (setObjectId (ImmutableMap m) w = (r, w') \<longrightarrow>
        (\<exists>x'. r = Ok x' \<and> setObjectId x' w' = (Ok x', w')))
   \<and> (truthy (prop_of obj ''objectId'') \<longrightarrow>
        objectId_or_new obj objectPath w = (prop_of obj ''objectId'', w)
        \<and> snd (createSiteData obj siteIndex w) = w
        \<and> (\<forall>built. fst (createSiteData obj siteIndex w) = Ok (Some built) \<longrightarrow>
              item_objectId built = prop_of obj ''objectId'')
        \<and> snd (createSiteSettingsData hostPattern obj w) = w
        \<and> (\<forall>built. fst (createSiteSettingsData hostPattern obj w) = Ok built \<longrightarrow>
              item_objectId built = prop_of obj ''objectId''))"
  by (intro conjI impI allI)
     (simp_all add: setObjectId_keeps setObjectId_twice objectId_or_new_keeps
        createSiteData_keeps createSiteSettingsData_keeps)

theorem objectId_assignment_idempotent_witness:
  "is_truthy (map_get [(''location'', Plain (Str ''a'')),
                       (''objectId'', ImmutableList [Plain (Num 1), Plain (Num 2)])] ''objectId'')
   \<and> setObjectId (ImmutableMap [(''location'', Plain (Str ''a'')),
                       (''objectId'', ImmutableList [Plain (Num 1), Plain (Num 2)])]) example_world
       = (Ok (ImmutableMap [(''location'', Plain (Str ''a'')),
                       (''objectId'', ImmutableList [Plain (Num 1), Plain (Num 2)])]), example_world)
   \<and> (\<exists>x'. setObjectId (ImmutableMap [(''location'', Plain (Str ''a''))]) example_world
              = (Ok x', example_world\<lparr>drawn := 16\<rparr>)
          \<and> x' = ImmutableMap [(''location'', Plain (Str ''a'')),
                 (''objectId'',
                  list_of_bytes [0, 1, 2, 3, 4, 5, 6, 7, 8, 9, 10, 11, 12, 13, 14, 15])]
          \<and> setObjectId x' (example_world\<lparr>drawn := 16\<rparr>) = (Ok x', example_world\<lparr>drawn := 16\<rparr>))
   \<and> truthy (prop_of [(''location'', Str ''a''), (''objectId'', Arr [Num 1, Num 2])] ''objectId'')
   \<and> createSiteData [(''location'', Str ''a''), (''objectId'', Arr [Num 1, Num 2])] Undefined
         example_world
       = (Ok (Some \<lparr>item_name = ''historySite'', item_objectId = Arr [Num 1, Num 2],
                     item_value = Obj [(''location'', Str ''a''), (''title'', Str ''''),
                        (''customTitle'', Str ''''), (''lastAccessedTime'', Num 0),
                        (''creationTime'', Num 0)]\<rparr>),
          example_world)
   \<and> snd (createSiteSettingsData (Str ''https?://a.example'')
            [(''noScript'', Bool True), (''objectId'', Arr [Num 1, Num 2])] example_world)
       = example_world"
proof -
  let ?m = "[(''location'', Plain (Str ''a'')),
             (''objectId'', ImmutableList [Plain (Num 1), Plain (Num 2)])]"
  let ?x = "ImmutableMap [(''location'', Plain (Str ''a'')),
               (''objectId'', list_of_bytes [0, 1, 2, 3, 4, 5, 6, 7, 8, 9, 10, 11, 12, 13, 14, 15])]"
  let ?obj = "[(''location'', Str ''a''), (''objectId'', Arr [Num 1, Num 2])]"
  let ?setting = "[(''noScript'', Bool True), (''objectId'', Arr [Num 1, Num 2])]"
  have first: "setObjectId (ImmutableMap [(''location'', Plain (Str ''a''))]) example_world
       = (Ok ?x, example_world\<lparr>drawn := 16\<rparr>)"
    by (simp add: setObjectId_def example_world_def randomBytes_def map_get_def upt_rec)
  have built: "createSiteData ?obj Undefined example_world
       = (Ok (Some \<lparr>item_name = ''historySite'', item_objectId = Arr [Num 1, Num 2],
                     item_value = Obj [(''location'', Str ''a''), (''title'', Str ''''),
                        (''customTitle'', Str ''''), (''lastAccessedTime'', Num 0),
                        (''creationTime'', Num 0)]\<rparr>),
          example_world)"
    by (simp add: builder_defs)
  have 1: "is_truthy (map_get ?m ''objectId'')" by (simp add: map_get_def)
  have 2: "truthy (prop_of ?obj ''objectId'')" "truthy (prop_of ?setting ''objectId'')"
    by (simp_all add: prop_of_def)
  note t1 = objectId_assignment_idempotent [where m = ?m and w = example_world]
  note t2 = objectId_assignment_idempotent
               [where m = "[(''location'', Plain (Str ''a''))]" and w = example_world
                  and w' = "example_world\<lparr>drawn := 16\<rparr>" and r = "Ok ?x",
                THEN conjunct2, THEN conjunct1, rule_format, OF first]
  note t3 = objectId_assignment_idempotent [where obj = ?setting and w = example_world]
  from t1 1
  have A: "setObjectId (ImmutableMap ?m) example_world = (Ok (ImmutableMap ?m), example_world)"
    by blast
  from t2
  have B: "setObjectId ?x (example_world\<lparr>drawn := 16\<rparr>) = (Ok ?x, example_world\<lparr>drawn := 16\<rparr>)"
    by auto
  from t3 2
  have C: "snd (createSiteSettingsData (Str ''https?://a.example'') ?setting example_world)
       = example_world"
    by blast
  from 1 A first B 2 built C show ?thesis by simp
qed

section \<open>Building site records\<close>

lemma has_Cons: "has ((k, v) # obj) k' = (k' = k \<or> has obj k')"
  by (auto simp: has_def)

lemma has_Nil: "has [] k = False"
  by (simp add: has_def)

lemma keys_set_prop:
  "map fst (set_prop k v obj) = (if has obj k then map fst obj else map fst obj @ [k])"
  by (induction obj) (auto simp: has_Cons has_Nil)

lemma has_set_prop: "has (set_prop k v obj) k' = (k' = k \<or> has obj k')"
  by (induction obj) (auto simp: has_Cons has_Nil split: if_splits)

lemma map_of_None_iff: "map_of obj f = None \<longleftrightarrow> \<not> has obj f"
  by (simp add: has_def map_of_eq_None_iff)

lemma in_op_assign: "in_op g obj \<Longrightarrow> in_op f (assign g v obj) = in_op f obj"
  by (auto simp: in_op_def assign_def has_set_prop)

lemma map_of_assign:
  "map_of (assign g v obj) f = (if f = g \<and> g \<noteq> ''__proto__'' then Some v else map_of obj f)"
  by (simp add: assign_def map_of_set_prop)

lemma prop_of_own: "has obj f \<Longrightarrow> prop_of obj f = get obj f"
  by (cases "map_of obj f") (simp_all add: map_of_None_iff prop_of_def get_def)

lemma not_inherited: "f \<notin> set object_prototype_names \<Longrightarrow> prop_of obj f = get obj f"
  by (auto simp: prop_of_def get_def inherited_def object_prototype_names_def split: option.splits)

lemma get_absent: "\<not> has obj f \<Longrightarrow> get obj f = Undefined"
  by (simp add: get_def map_of_None_iff [symmetric])

text \<open>The copy loop of \<^verbatim>\<open>createSiteData\<close>, one key of the result at a time.\<close>

lemma copy_loop_in_op:
  "in_op f (fold (\<lambda>field siteData.
             if in_op field siteData then assign field (prop_of site field) siteData
             else siteData) ks acc) = in_op f acc"
  by (induction ks arbitrary: acc) (simp_all add: in_op_assign)

lemma copy_loop_map_of:
  "f \<noteq> ''__proto__'' \<Longrightarrow>
   map_of (fold (\<lambda>field siteData.
             if in_op field siteData then assign field (prop_of site field) siteData
             else siteData) ks acc) f
   = (if f \<in> set ks \<and> in_op f acc then Some (prop_of site f) else map_of acc f)"
proof (induction ks arbitrary: acc)
  case Nil
  then show ?case by simp
next
  case (Cons g ks)
  show ?case
  proof (cases "in_op g acc")
    case True
    then show ?thesis
      using Cons.prems by (auto simp: Cons.IH in_op_assign map_of_assign)
  next
    case False
    then show ?thesis
      using Cons.prems by (auto simp: Cons.IH)
  qed
qed

lemma copy_site_fields_get:
  assumes "has siteData f" and "f \<noteq> ''__proto__''"
  shows "get (copy_site_fields site siteData) f = (if has site f then get site f else get siteData f)"
proof -
  have "in_op f siteData" using assms by (simp add: in_op_def)
  then show ?thesis
    using assms copy_loop_map_of [of f site "for_in_keys site" siteData]
    by (auto simp: copy_site_fields_def get_def for_in_keys_def has_def prop_of_own)
qed

lemma siteData_carries_fields:
  "\<forall>field \<in> set [''location'', ''title'', ''customTitle'', ''lastAccessedTime'', ''creationTime''].
     get (copy_site_fields site siteData_initial) field
       = (if has site field then get site field else get siteData_initial field)"
  by (simp add: copy_site_fields_get has_def siteData_initial_def)

lemma tags_not_inherited: "prop_of site ''tags'' = get site ''tags''"
  by (rule not_inherited) (simp add: object_prototype_names_def object_prototype_functions_def)


text \<open>
  What \<^verbatim>\<open>isSyncable('bookmark', Immutable.fromJS(site))\<close> says of a plain site object by its
  tag list. A site that \<^verbatim>\<open>Immutable.fromJS\<close> does not convert has no method \<^verbatim>\<open>get\<close>.
\<close>

lemma fromJS_plain:
  "isPlainObj site \<Longrightarrow> fromJS (Obj site) = ImmutableMap (map (\<lambda>(k, v). (k, fromJS v)) site)"
  by (simp add: fromJS.simps)

lemma map_get_fromJS: "map_get (map (\<lambda>(k, v). (k, fromJS v)) site) k = fromJS (get site k)"
  by (induction site) (auto simp: map_get_def get_def fromJS.simps)

lemma fromJS_Str_iff: "fromJS x = Plain (Str s) \<longleftrightarrow> x = Str s"
  by (cases x) (auto simp: fromJS.simps)

lemma fromJS_image_Str: "Plain (Str s) \<in> fromJS ` set tags \<longleftrightarrow> Str s \<in> set tags"
  using fromJS_Str_iff [of _ s] by (metis (no_types, lifting) fromJS.simps(5) image_iff)

lemma is_truthy_fromJS: "is_truthy (fromJS v) = truthy v"
  by (cases v) (auto simp: fromJS.simps)

lemma isSyncable_fromJS_tags:
  assumes "isPlainObj site" and "get site ''tags'' = Arr tags"
  shows "isSyncable ''bookmark'' (fromJS (Obj site))
           = Inr (Str ''bookmark'' \<in> set tags \<or> Str ''bookmark-folder'' \<in> set tags)"
  using assms
  by (auto simp: isSyncable_def fromJS_plain map_get_fromJS fromJS.simps(1) fromJS_image_Str
           split: bool.splits)

lemma isSyncable_fromJS_no_tags:
  "isPlainObj site \<Longrightarrow> \<not> truthy (get site ''tags'') \<Longrightarrow>
     isSyncable ''bookmark'' (fromJS (Obj site)) = Inr False"
  by (simp add: isSyncable_def fromJS_plain map_get_fromJS is_truthy_fromJS)

lemma isSyncable_not_plain:
  "\<not> isPlainObj site \<Longrightarrow>
     isSyncable ''bookmark'' (fromJS (Obj site)) = Inl (TypeError ''item.get is not a function'')"
  by (simp add: isSyncable_def fromJS.simps)

lemma createSiteData_bookmark:
  assumes "isPlainObj site"
    and "truthy (prop_of site ''objectId'') \<or> typeof_number siteIndex"
    and "prop_of site ''tags'' = Arr tags"
    and "Str ''bookmark'' \<in> set tags \<or> Str ''bookmark-folder'' \<in> set tags"
  shows "\<exists>objectId w'. createSiteData site siteIndex w =
           (Ok (Some \<lparr>item_name = ''bookmark'', item_objectId = objectId,
                      item_value = Obj
                        [(''site'', Obj (copy_site_fields site siteData_initial)),
                         (''isFolder'', Bool (Str ''bookmark-folder'' \<in> set tags)),
                         (''folderId'', or_else (prop_of site ''folderId'') (Num 0)),
                         (''parentFolderId'', or_else (prop_of site ''parentFolderId'') (Num 0))]\<rparr>),
            w')"
proof -
  obtain objectId w' where "objectId_or_new site [Str ''sites'', siteIndex] w = (objectId, w')"
    by (cases "objectId_or_new site [Str ''sites'', siteIndex] w")
  moreover have "get site ''tags'' = Arr tags"
    using assms(3) by (simp add: tags_not_inherited)
  from isSyncable_fromJS_tags [OF assms(1) this] assms(4)
  have "isSyncable ''bookmark'' (fromJS (Obj site)) = Inr True" by simp
  ultimately show ?thesis
    using assms(2,3) by (auto simp: createSiteData_def Let_def )
qed

lemma createSiteData_history:
  assumes "isPlainObj site"
    and "truthy (prop_of site ''objectId'') \<or> typeof_number siteIndex"
    and "\<not> truthy (prop_of site ''tags'') \<or> prop_of site ''tags'' = Arr []"
  shows "\<exists>objectId w'. createSiteData site siteIndex w =
           (Ok (Some \<lparr>item_name = ''historySite'', item_objectId = objectId,
                      item_value = Obj (copy_site_fields site siteData_initial)\<rparr>), w')"
proof -
  obtain objectId w' where "objectId_or_new site [Str ''sites'', siteIndex] w = (objectId, w')"
    by (cases "objectId_or_new site [Str ''sites'', siteIndex] w")
  moreover have "isSyncable ''bookmark'' (fromJS (Obj site)) = Inr False"
  proof (cases "truthy (get site ''tags'')")
    case True
    with assms(3) have "get site ''tags'' = Arr []" by (simp add: tags_not_inherited)
    from isSyncable_fromJS_tags [OF assms(1) this] show ?thesis by simp
  next
    case False
    with assms(1) show ?thesis by (rule isSyncable_fromJS_no_tags)
  qed
  ultimately show ?thesis
    using assms(2,3) by (auto simp: createSiteData_def Let_def )
qed

lemma createSiteData_bookmark_without_id:
  assumes "isPlainObj site"
    and "\<not> truthy (prop_of site ''objectId'')" and "\<not> typeof_number siteIndex"
    and "prop_of site ''tags'' = Arr tags"
    and "Str ''bookmark'' \<in> set tags \<or> Str ''bookmark-folder'' \<in> set tags"
  shows "createSiteData site siteIndex w = (Throw (Error ''Missing bookmark objectId.''), w)"
proof -
  have "get site ''tags'' = Arr tags"
    using assms(4) by (simp add: tags_not_inherited)
  from isSyncable_fromJS_tags [OF assms(1) this] assms(5)
  have "isSyncable ''bookmark'' (fromJS (Obj site)) = Inr True" by simp
  then show ?thesis
    using assms(2,3) by (simp add: createSiteData_def)
qed

lemma createSiteData_history_without_id:
  assumes "isPlainObj site"
    and "\<not> truthy (prop_of site ''objectId'')" and "\<not> typeof_number siteIndex"
    and "\<not> truthy (prop_of site ''tags'') \<or> prop_of site ''tags'' = Arr []"
  shows "createSiteData site siteIndex w = (Throw (Error ''Missing historySite objectId.''), w)"
proof -
  have "isSyncable ''bookmark'' (fromJS (Obj site)) = Inr False"
  proof (cases "truthy (get site ''tags'')")
    case True
    with assms(4) have "get site ''tags'' = Arr []" by (simp add: tags_not_inherited)
    from isSyncable_fromJS_tags [OF assms(1) this] show ?thesis by simp
  next
    case False
    with assms(1) show ?thesis by (rule isSyncable_fromJS_no_tags)
  qed
  then show ?thesis
    using assms(2,3,4) by (auto simp: createSiteData_def )
qed

lemma createSiteData_not_plain:
  "\<not> isPlainObj site \<Longrightarrow>
     createSiteData site siteIndex w = (Throw (TypeError ''item.get is not a function''), w)"
  by (simp add: createSiteData_def isSyncable_not_plain)

text \<open>
  Claim C1, as the code has it. Let \<^verbatim>\<open>site\<close> be a plain object that \<^verbatim>\<open>Immutable.fromJS\<close>
  converts to a map: its \<^verbatim>\<open>constructor\<close> property is \<^verbatim>\<open>Object\<close>, as inherited, or \<^verbatim>\<open>undefined\<close>.

  \<^item> Let the site carry an object id, or let \<^verbatim>\<open>siteIndex\<close> be a number. If its tag list includes
    \<^verbatim>\<open>bookmark\<close> and does not include \<^verbatim>\<open>bookmark-folder\<close>, the result is a record named
    \<^verbatim>\<open>bookmark\<close> whose value has \<^verbatim>\<open>isFolder = false\<close>; if the tag list includes
    \<^verbatim>\<open>bookmark-folder\<close>, it is a \<^verbatim>\<open>bookmark\<close> record with \<^verbatim>\<open>isFolder = true\<close>; if the site has no
    tags (none at all, or an empty list), it is a record named \<^verbatim>\<open>historySite\<close> whose value has
    each of the five site fields, taken from the site where the site has it and from the
    defaults otherwise.
  \<^item> Without an object id and without a numeric \<^verbatim>\<open>siteIndex\<close>, \<^verbatim>\<open>createSiteData\<close> throws
    \<^verbatim>\<open>Missing bookmark objectId.\<close> for a tag list that includes \<^verbatim>\<open>bookmark\<close> or
    \<^verbatim>\<open>bookmark-folder\<close>, and \<^verbatim>\<open>Missing historySite objectId.\<close> for a site with no tags, and
    leaves the world as it was.

  A site that \<^verbatim>\<open>Immutable.fromJS\<close> leaves a plain object (it has an own property \<^verbatim>\<open>constructor\<close>
  of another value) has no method \<^verbatim>\<open>get\<close>, its own property of that name being no function:
  \<^verbatim>\<open>createSiteData\<close> throws a \<^verbatim>\<open>TypeError\<close>.
\<close>

theorem createSiteData_by_tags:
  "(isPlainObj site \<and> (truthy (prop_of site ''objectId'') \<or> typeof_number siteIndex)
      \<and> prop_of site ''tags'' = Arr tags \<and> Str ''bookmark'' \<in> set tags
      \<and> Str ''bookmark-folder'' \<notin> set tags \<longrightarrow>
      (\<exists>built w'. createSiteData site siteIndex w = (Ok (Some built), w')
         \<and> item_name built = ''bookmark''
         \<and> at_path (item_value built) [''isFolder''] = Some (Bool False)))
   \<and> (isPlainObj site \<and> (truthy (prop_of site ''objectId'') \<or> typeof_number siteIndex)
      \<and> prop_of site ''tags'' = Arr tags \<and> Str ''bookmark-folder'' \<in> set tags \<longrightarrow>
      (\<exists>built w'. createSiteData site siteIndex w = (Ok (Some built), w')
         \<and> item_name built = ''bookmark''
         \<and> at_path (item_value built) [''isFolder''] = Some (Bool True)))
   \<and> (isPlainObj site \<and> (truthy (prop_of site ''objectId'') \<or> typeof_number siteIndex)
      \<and> (\<not> truthy (prop_of site ''tags'') \<or> prop_of site ''tags'' = Arr []) \<longrightarrow>
      (\<exists>built w' siteData. createSiteData site siteIndex w = (Ok (Some built), w')
         \<and> item_name built = ''historySite''
         \<and> item_value built = Obj siteData
         \<and> (\<forall>field \<in> set [''location'', ''title'', ''customTitle'', ''lastAccessedTime'',
                              ''creationTime''].
               get siteData field
                 = (if has site field then get site field else get siteData_initial field))))
   \<and> (isPlainObj site \<and> \<not> truthy (prop_of site ''objectId'') \<and> \<not> typeof_number siteIndex
      \<and> prop_of site ''tags'' = Arr tags
      \<and> (Str ''bookmark'' \<in> set tags \<or> Str ''bookmark-folder'' \<in> set tags) \<longrightarrow>
      createSiteData site siteIndex w = (Throw (Error ''Missing bookmark objectId.''), w))
   \<and> (isPlainObj site \<and> \<not> truthy (prop_of site ''objectId'') \<and> \<not> typeof_number siteIndex
      \<and> (\<not> truthy (prop_of site ''tags'') \<or> prop_of site ''tags'' = Arr []) \<longrightarrow>
      createSiteData site siteIndex w = (Throw (Error ''Missing historySite objectId.''), w))
   \<and> (\<not> isPlainObj site \<and> (\<forall>k. get site ''get'' \<noteq> Builtin k) \<longrightarrow>
      createSiteData site siteIndex w = (Throw (TypeError ''item.get is not a function''), w))"
proof (intro conjI impI)
  assume a: "isPlainObj site \<and> (truthy (prop_of site ''objectId'') \<or> typeof_number siteIndex)
      \<and> prop_of site ''tags'' = Arr tags \<and> Str ''bookmark'' \<in> set tags
      \<and> Str ''bookmark-folder'' \<notin> set tags"
  then have "isPlainObj site" "truthy (prop_of site ''objectId'') \<or> typeof_number siteIndex"
    "prop_of site ''tags'' = Arr tags"
    "Str ''bookmark'' \<in> set tags \<or> Str ''bookmark-folder'' \<in> set tags"
    by simp_all
  from createSiteData_bookmark [OF this, of w] a
  show "\<exists>built w'. createSiteData site siteIndex w = (Ok (Some built), w')
         \<and> item_name built = ''bookmark''
         \<and> at_path (item_value built) [''isFolder''] = Some (Bool False)"
    by auto
next
  assume a: "isPlainObj site \<and> (truthy (prop_of site ''objectId'') \<or> typeof_number siteIndex)
      \<and> prop_of site ''tags'' = Arr tags \<and> Str ''bookmark-folder'' \<in> set tags"
  then have "isPlainObj site" "truthy (prop_of site ''objectId'') \<or> typeof_number siteIndex"
    "prop_of site ''tags'' = Arr tags"
    "Str ''bookmark'' \<in> set tags \<or> Str ''bookmark-folder'' \<in> set tags"
    by simp_all
  from createSiteData_bookmark [OF this, of w] a
  show "\<exists>built w'. createSiteData site siteIndex w = (Ok (Some built), w')
         \<and> item_name built = ''bookmark''
         \<and> at_path (item_value built) [''isFolder''] = Some (Bool True)"
    by auto
next
  assume a: "isPlainObj site \<and> (truthy (prop_of site ''objectId'') \<or> typeof_number siteIndex)
      \<and> (\<not> truthy (prop_of site ''tags'') \<or> prop_of site ''tags'' = Arr [])"
  then have "isPlainObj site" "truthy (prop_of site ''objectId'') \<or> typeof_number siteIndex"
    "\<not> truthy (prop_of site ''tags'') \<or> prop_of site ''tags'' = Arr []"
    by simp_all
  from createSiteData_history [OF this, of w] siteData_carries_fields [of site]
  show "\<exists>built w' siteData. createSiteData site siteIndex w = (Ok (Some built), w')
         \<and> item_name built = ''historySite''
         \<and> item_value built = Obj siteData
         \<and> (\<forall>field \<in> set [''location'', ''title'', ''customTitle'', ''lastAccessedTime'',
                              ''creationTime''].
               get siteData field
                 = (if has site field then get site field else get siteData_initial field))"
    by auto
next
  assume "isPlainObj site \<and> \<not> truthy (prop_of site ''objectId'') \<and> \<not> typeof_number siteIndex
      \<and> prop_of site ''tags'' = Arr tags
      \<and> (Str ''bookmark'' \<in> set tags \<or> Str ''bookmark-folder'' \<in> set tags)"
  then show "createSiteData site siteIndex w = (Throw (Error ''Missing bookmark objectId.''), w)"
    by (intro createSiteData_bookmark_without_id [of site siteIndex tags]) simp_all
next
  assume "isPlainObj site \<and> \<not> truthy (prop_of site ''objectId'') \<and> \<not> typeof_number siteIndex
      \<and> (\<not> truthy (prop_of site ''tags'') \<or> prop_of site ''tags'' = Arr [])"
  then show "createSiteData site siteIndex w = (Throw (Error ''Missing historySite objectId.''), w)"
    by (intro createSiteData_history_without_id) simp_all
next
  assume "\<not> isPlainObj site \<and> (\<forall>k. get site ''get'' \<noteq> Builtin k)"
  then show "createSiteData site siteIndex w
               = (Throw (TypeError ''item.get is not a function''), w)"
    by (simp add: createSiteData_not_plain)
qed

text \<open>
  The claim as first stated fails in two ways: a bookmark without an object id (and without a
  site index) makes \<^verbatim>\<open>createSiteData\<close> throw, and a tag list holding both \<^verbatim>\<open>bookmark\<close> and
  \<^verbatim>\<open>bookmark-folder\<close> gives \<^verbatim>\<open>isFolder = true\<close>.
\<close>

theorem createSiteData_by_tags_counterexample:
  "fst (createSiteData
          [(''location'', Str ''https://a.example/''), (''tags'', Arr [Str ''bookmark''])]
          Undefined example_world)
     = Throw (Error ''Missing bookmark objectId.'')
   \<and> fst (createSiteData
          [(''location'', Str ''https://a.example/''),
           (''tags'', Arr [Str ''bookmark'', Str ''bookmark-folder'']),
           (''objectId'', Arr [Num 1])]
          Undefined example_world)
     = Ok (Some \<lparr>item_name = ''bookmark'', item_objectId = Arr [Num 1],
                  item_value = Obj
                    [(''site'', Obj [(''location'', Str ''https://a.example/''),
                                    (''title'', Str ''''), (''customTitle'', Str ''''),
                                    (''lastAccessedTime'', Num 0), (''creationTime'', Num 0)]),
                     (''isFolder'', Bool True),
                     (''folderId'', Num 0),
                     (''parentFolderId'', Num 0)]\<rparr>)"
  by (simp add: builder_defs)

theorem createSiteData_by_tags_witness:
  "isPlainObj [(''location'', Str ''https://a.example/''), (''tags'', Arr [Str ''bookmark'']),
               (''objectId'', Arr [Num 1])]
   \<and> truthy (prop_of [(''location'', Str ''https://a.example/''), (''tags'', Arr [Str ''bookmark'']),
                      (''objectId'', Arr [Num 1])] ''objectId'')
   \<and> (\<exists>built w'.
         createSiteData [(''location'', Str ''https://a.example/''), (''tags'', Arr [Str ''bookmark'']),
                         (''objectId'', Arr [Num 1])] Undefined example_world
           = (Ok (Some built), w')
         \<and> item_name built = ''bookmark''
         \<and> at_path (item_value built) [''isFolder''] = Some (Bool False))
   \<and> isPlainObj [(''title'', Str ''Folder''), (''tags'', Arr [Str ''bookmark-folder'']),
                 (''folderId'', Num 4)]
   \<and> typeof_number (Num 2)
   \<and> (\<exists>built w'.
         createSiteData [(''title'', Str ''Folder''), (''tags'', Arr [Str ''bookmark-folder'']),
                         (''folderId'', Num 4)] (Num 2) example_world
           = (Ok (Some built), w')
         \<and> item_name built = ''bookmark''
         \<and> at_path (item_value built) [''isFolder''] = Some (Bool True))
   \<and> isPlainObj [(''location'', Str ''https://b.example/'')]
   \<and> \<not> truthy (prop_of [(''location'', Str ''https://b.example/'')] ''tags'')
   \<and> (\<exists>built w' siteData.
         createSiteData [(''location'', Str ''https://b.example/'')] (Num 3) example_world
           = (Ok (Some built), w')
         \<and> item_name built = ''historySite''
         \<and> item_value built = Obj siteData
         \<and> get siteData ''location'' = Str ''https://b.example/''
         \<and> get siteData ''title'' = Str '''')
   \<and> \<not> truthy (prop_of [(''title'', Str ''Folder''), (''tags'', Arr [Str ''bookmark-folder'']),
                        (''folderId'', Num 4)] ''objectId'')
   \<and> \<not> typeof_number Undefined
   \<and> createSiteData [(''title'', Str ''Folder''), (''tags'', Arr [Str ''bookmark-folder'']),
                     (''folderId'', Num 4)] Undefined example_world
       = (Throw (Error ''Missing bookmark objectId.''), example_world)
   \<and> createSiteData [(''location'', Str ''https://b.example/'')] Undefined example_world
       = (Throw (Error ''Missing historySite objectId.''), example_world)
   \<and> \<not> isPlainObj [(''location'', Str ''https://c.example/''), (''constructor'', Str ''x''),
                    (''objectId'', Arr [Num 1])]
   \<and> createSiteData [(''location'', Str ''https://c.example/''), (''constructor'', Str ''x''),
                     (''objectId'', Arr [Num 1])] Undefined example_world
       = (Throw (TypeError ''item.get is not a function''), example_world)"
proof -
  let ?a = "[(''location'', Str ''https://a.example/''), (''tags'', Arr [Str ''bookmark'']),
             (''objectId'', Arr [Num 1])]"
  let ?f = "[(''title'', Str ''Folder''), (''tags'', Arr [Str ''bookmark-folder'']),
             (''folderId'', Num 4)]"
  let ?b = "[(''location'', Str ''https://b.example/'')]"
  let ?c = "[(''location'', Str ''https://c.example/''), (''constructor'', Str ''x''),
             (''objectId'', Arr [Num 1])]"
  note defs = isPlainObj_def prop_of_def get_def inherited_def object_prototype_functions_def
  have a: "isPlainObj ?a" "truthy (prop_of ?a ''objectId'')"
    "prop_of ?a ''tags'' = Arr [Str ''bookmark'']"
    by (simp_all add: defs)
  have f: "isPlainObj ?f" "prop_of ?f ''tags'' = Arr [Str ''bookmark-folder'']"
    "\<not> truthy (prop_of ?f ''objectId'')"
    by (simp_all add: defs)
  have b: "isPlainObj ?b" "\<not> truthy (prop_of ?b ''tags'')" "\<not> truthy (prop_of ?b ''objectId'')"
    by (simp_all add: defs)
  have c: "\<not> isPlainObj ?c" "\<forall>k. get ?c ''get'' \<noteq> Builtin k"
    by (simp_all add: defs)
  note t = createSiteData_by_tags [where w = example_world]
  from t [where site = ?a and siteIndex = Undefined and tags = "[Str ''bookmark'']"] a
  have 1: "\<exists>built w'. createSiteData ?a Undefined example_world = (Ok (Some built), w')
         \<and> item_name built = ''bookmark''
         \<and> at_path (item_value built) [''isFolder''] = Some (Bool False)"
    by simp
  from t [where site = ?f and siteIndex = "Num 2" and tags = "[Str ''bookmark-folder'']"] f
  have 2: "\<exists>built w'. createSiteData ?f (Num 2) example_world = (Ok (Some built), w')
         \<and> item_name built = ''bookmark''
         \<and> at_path (item_value built) [''isFolder''] = Some (Bool True)"
    by simp
  from t [where site = ?b and siteIndex = "Num 3" and tags = "[]"] b
  have 3: "\<exists>built w' siteData. createSiteData ?b (Num 3) example_world = (Ok (Some built), w')
         \<and> item_name built = ''historySite''
         \<and> item_value built = Obj siteData
         \<and> get siteData ''location'' = Str ''https://b.example/''
         \<and> get siteData ''title'' = Str ''''"
    by (simp add: has_def get_def siteData_initial_def) blast
  from t [where site = ?f and siteIndex = Undefined and tags = "[Str ''bookmark-folder'']"] f
  have 4: "createSiteData ?f Undefined example_world
             = (Throw (Error ''Missing bookmark objectId.''), example_world)"
    by simp
  from t [where site = ?b and siteIndex = Undefined and tags = "[]"] b
  have 5: "createSiteData ?b Undefined example_world
             = (Throw (Error ''Missing historySite objectId.''), example_world)"
    by simp
  from t [where site = ?c and siteIndex = Undefined and tags = "[]"] c
  have 6: "createSiteData ?c Undefined example_world
             = (Throw (TypeError ''item.get is not a function''), example_world)"
    by simp
  from a f b c 1 2 3 4 5 6 show ?thesis by simp
qed

section \<open>Building site-setting records\<close>

lemma has_if_get: "get obj f = Str s \<Longrightarrow> has obj f"
  by (rule ccontr) (simp add: get_absent)

lemma at_key_Inr: "to_string key = Inr k \<Longrightarrow> at_key table key = Inr (prop_of table k)"
  by (simp add: at_key_def)

lemma adControl_not_inherited: "prop_of setting ''adControl'' = get setting ''adControl''"
  by (rule not_inherited) (simp add: object_prototype_names_def object_prototype_functions_def)

lemma cookieControl_not_inherited:
  "prop_of setting ''cookieControl'' = get setting ''cookieControl''"
  by (rule not_inherited) (simp add: object_prototype_names_def object_prototype_functions_def)

text \<open>The loop of \<^verbatim>\<open>createSiteSettingsData\<close>, one enum field of the result at a time.\<close>

lemma copy_setting_fields_Cons:
  "copy_setting_fields setting (f # ks) val = Inr val' \<longleftrightarrow>
     (\<exists>v1. setting_step setting f val = Inr v1 \<and> copy_setting_fields setting ks v1 = Inr val')"
  by (auto split: sum.splits)

lemma setting_step_adControl:
  assumes "at_key adControlEnum (prop_of setting ''adControl'') = Inr code"
    and "setting_step setting g val = Inr v1"
  shows "map_of v1 ''adControl''
           = (if g = ''adControl'' then Some code else map_of val ''adControl'')"
  using assms by (auto simp: setting_step_def map_of_assign split: sum.splits if_splits)

lemma setting_step_cookieControl:
  assumes "at_key cookieControlEnum (prop_of setting ''cookieControl'') = Inr code"
    and "setting_step setting g val = Inr v1"
  shows "map_of v1 ''cookieControl''
           = (if g = ''cookieControl'' then Some code else map_of val ''cookieControl'')"
  using assms by (auto simp: setting_step_def map_of_assign split: sum.splits if_splits)

lemma setting_loop_adControl:
  assumes "at_key adControlEnum (prop_of setting ''adControl'') = Inr code"
    and "copy_setting_fields setting ks val = Inr val'"
  shows "map_of val' ''adControl''
           = (if ''adControl'' \<in> set ks then Some code else map_of val ''adControl'')"
  using assms(2)
proof (induction ks arbitrary: val)
  case Nil
  then show ?case by simp
next
  case (Cons g ks)
  then obtain v1 where 1: "setting_step setting g val = Inr v1"
    and 2: "copy_setting_fields setting ks v1 = Inr val'"
    by (auto split: sum.splits)
  from Cons.IH [OF 2] setting_step_adControl [OF assms(1) 1] show ?case by simp
qed

lemma setting_loop_cookieControl:
  assumes "at_key cookieControlEnum (prop_of setting ''cookieControl'') = Inr code"
    and "copy_setting_fields setting ks val = Inr val'"
  shows "map_of val' ''cookieControl''
           = (if ''cookieControl'' \<in> set ks then Some code else map_of val ''cookieControl'')"
  using assms(2)
proof (induction ks arbitrary: val)
  case Nil
  then show ?case by simp
next
  case (Cons g ks)
  then obtain v1 where 1: "setting_step setting g val = Inr v1"
    and 2: "copy_setting_fields setting ks v1 = Inr val'"
    by (auto split: sum.splits)
  from Cons.IH [OF 2] setting_step_cookieControl [OF assms(1) 1] show ?case by simp
qed

text \<open>The loop ends without an error if both enum values convert to property keys.\<close>

lemma setting_loop_Ok:
  assumes "to_string (get setting ''adControl'') = Inr ka"
    and "to_string (get setting ''cookieControl'') = Inr kc"
  shows "\<exists>val'. copy_setting_fields setting ks val = Inr val'"
proof (induction ks arbitrary: val)
  case Nil
  show ?case by simp
next
  case (Cons g ks)
  have "\<exists>v1. setting_step setting g val = Inr v1"
    using assms
    by (simp add: setting_step_def at_key_def adControl_not_inherited cookieControl_not_inherited)
  then obtain v1 where "setting_step setting g val = Inr v1" ..
  with Cons.IH [of v1] show ?case by simp
qed

lemma createSiteSettingsData_Ok:
  assumes "to_string (get setting ''adControl'') = Inr ka"
    and "to_string (get setting ''cookieControl'') = Inr kc"
  shows "\<exists>val objectId w'.
           copy_setting_fields setting (for_in_keys setting)
             (set_prop ''hostPattern'' hp siteSettingDefaults) = Inr val
         \<and> createSiteSettingsData hp setting w
             = (Ok \<lparr>item_name = ''siteSetting'', item_objectId = objectId, item_value = Obj val\<rparr>,
                w')"
proof -
  from setting_loop_Ok [OF assms] obtain val where
    "copy_setting_fields setting (for_in_keys setting)
       (set_prop ''hostPattern'' hp siteSettingDefaults) = Inr val"
    by blast
  then show ?thesis
    by (cases "objectId_or_new setting [Str ''siteSettings'', hp] w")
       (simp add: createSiteSettingsData_def)
qed

lemma unknown_adControl:
  "s \<notin> set (map fst adControlEnum) \<Longrightarrow> s \<notin> set object_prototype_names \<Longrightarrow>
     at_key adControlEnum (Str s) = Inr Undefined"
  by (simp add: at_key_def adControlEnum_def prop_of_def inherited_def
        object_prototype_names_def)

lemma unknown_cookieControl:
  "s \<notin> set (map fst cookieControlEnum) \<Longrightarrow> s \<notin> set object_prototype_names \<Longrightarrow>
     at_key cookieControlEnum (Str s) = Inr Undefined"
  by (simp add: at_key_def cookieControlEnum_def prop_of_def inherited_def
        object_prototype_names_def)

lemma built_adControl:
  assumes "get setting ''adControl'' = Str s"
    and "to_string (get setting ''cookieControl'') = Inr kc"
    and "at_key adControlEnum (Str s) = Inr code"
  shows "\<exists>built w'. createSiteSettingsData hp setting w = (Ok built, w')
           \<and> item_name built = ''siteSetting''
           \<and> at_path (item_value built) [''adControl''] = Some code"
proof -
  have c: "to_string (get setting ''adControl'') = Inr s" using assms(1) by simp
  from createSiteSettingsData_Ok [OF c assms(2), of hp w] obtain val objectId w' where
    l: "copy_setting_fields setting (for_in_keys setting)
             (set_prop ''hostPattern'' hp siteSettingDefaults) = Inr val"
    and b: "createSiteSettingsData hp setting w
             = (Ok \<lparr>item_name = ''siteSetting'', item_objectId = objectId, item_value = Obj val\<rparr>,
                w')"
    by blast
  have "''adControl'' \<in> set (for_in_keys setting)"
    using has_if_get [OF assms(1)] by (simp add: for_in_keys_def has_def)
  with setting_loop_adControl [OF _ l, of code] assms(1,3)
  have "map_of val ''adControl'' = Some code" by (simp add: adControl_not_inherited)
  with b show ?thesis by simp
qed

lemma built_cookieControl:
  assumes "get setting ''cookieControl'' = Str s"
    and "to_string (get setting ''adControl'') = Inr ka"
    and "at_key cookieControlEnum (Str s) = Inr code"
  shows "\<exists>built w'. createSiteSettingsData hp setting w = (Ok built, w')
           \<and> item_name built = ''siteSetting''
           \<and> at_path (item_value built) [''cookieControl''] = Some code"
proof -
  have c: "to_string (get setting ''cookieControl'') = Inr s" using assms(1) by simp
  from createSiteSettingsData_Ok [OF assms(2) c, of hp w] obtain val objectId w' where
    l: "copy_setting_fields setting (for_in_keys setting)
             (set_prop ''hostPattern'' hp siteSettingDefaults) = Inr val"
    and b: "createSiteSettingsData hp setting w
             = (Ok \<lparr>item_name = ''siteSetting'', item_objectId = objectId, item_value = Obj val\<rparr>,
                w')"
    by blast
  have "''cookieControl'' \<in> set (for_in_keys setting)"
    using has_if_get [OF assms(1)] by (simp add: for_in_keys_def has_def)
  with setting_loop_cookieControl [OF _ l, of code] assms(1,3)
  have "map_of val ''cookieControl'' = Some code" by (simp add: cookieControl_not_inherited)
  with b show ?thesis by simp
qed

text \<open>
  Claim C5, as the code has it. An \<^verbatim>\<open>adControl\<close> or \<^verbatim>\<open>cookieControl\<close> string outside the
  translation table is not a building error. Let the string be no member name of
  \<^verbatim>\<open>Object.prototype\<close> either, and let the other enum field, if the setting has it, hold a value
  that converts to a property key (as every string, number and boolean does). Then
  \<^verbatim>\<open>createSiteSettingsData\<close> returns normally, with a record named \<^verbatim>\<open>siteSetting\<close> whose value
  holds \<^verbatim>\<open>undefined\<close> in that field: the result of the table lookup, neither checked nor zeroed.
\<close>

theorem unknown_enum_value_is_built:
  "(get setting ''adControl'' = Str s \<and> s \<notin> set (map fst adControlEnum)
      \<and> s \<notin> set object_prototype_names
      \<and> (\<exists>k. to_string (get setting ''cookieControl'') = Inr k) \<longrightarrow>
      (\<exists>built w'. createSiteSettingsData hostPattern setting w = (Ok built, w')
         \<and> item_name built = ''siteSetting''
         \<and> at_path (item_value built) [''adControl''] = Some Undefined))
   \<and> (get setting ''cookieControl'' = Str s \<and> s \<notin> set (map fst cookieControlEnum)
      \<and> s \<notin> set object_prototype_names
      \<and> (\<exists>k. to_string (get setting ''adControl'') = Inr k) \<longrightarrow>
      (\<exists>built w'. createSiteSettingsData hostPattern setting w = (Ok built, w')
         \<and> item_name built = ''siteSetting''
         \<and> at_path (item_value built) [''cookieControl''] = Some Undefined))"
proof (intro conjI impI)
  assume "get setting ''adControl'' = Str s \<and> s \<notin> set (map fst adControlEnum)
      \<and> s \<notin> set object_prototype_names
      \<and> (\<exists>k. to_string (get setting ''cookieControl'') = Inr k)"
  then obtain k where "get setting ''adControl'' = Str s"
    "to_string (get setting ''cookieControl'') = Inr k"
    "at_key adControlEnum (Str s) = Inr Undefined"
    by (auto simp: unknown_adControl)
  then show "\<exists>built w'. createSiteSettingsData hostPattern setting w = (Ok built, w')
         \<and> item_name built = ''siteSetting''
         \<and> at_path (item_value built) [''adControl''] = Some Undefined"
    by (rule built_adControl)
next
  assume "get setting ''cookieControl'' = Str s \<and> s \<notin> set (map fst cookieControlEnum)
      \<and> s \<notin> set object_prototype_names
      \<and> (\<exists>k. to_string (get setting ''adControl'') = Inr k)"
  then obtain k where "get setting ''cookieControl'' = Str s"
    "to_string (get setting ''adControl'') = Inr k"
    "at_key cookieControlEnum (Str s) = Inr Undefined"
    by (auto simp: unknown_cookieControl)
  then show "\<exists>built w'. createSiteSettingsData hostPattern setting w = (Ok built, w')
         \<and> item_name built = ''siteSetting''
         \<and> at_path (item_value built) [''cookieControl''] = Some Undefined"
    by (rule built_cookieControl)
qed

text \<open>
  The claim as first stated fails: the setting below has an unknown \<^verbatim>\<open>adControl\<close> value, and
  the builder returns its record, with \<^verbatim>\<open>undefined\<close> for the field.
\<close>

theorem unknown_enum_value_is_built_counterexample:
  "createSiteSettingsData (Str ''https?://a.example'')
     [(''adControl'', Str ''blockEverything''), (''objectId'', Arr [Num 1])]
     example_world
   = (Ok \<lparr>item_name = ''siteSetting'', item_objectId = Arr [Num 1],
          item_value =
            Obj [(''hostPattern'', Str ''https?://a.example''),
                 (''zoomLevel'', Num 0),
                 (''shieldsUp'', Bool True),
                 (''adControl'', Undefined),
                 (''cookieControl'', Num 0),
                 (''safeBrowsing'', Bool True),
                 (''noScript'', Bool False),
                 (''httpsEverywhere'', Bool True),
                 (''fingerprintingProtection'', Bool False),
                 (''ledgerPayments'', Bool True),
                 (''ledgerPaymentsShown'', Bool True)]\<rparr>,
      example_world)"
  by (simp add: builder_defs)

theorem unknown_enum_value_is_built_witness:
  "get [(''adControl'', Str ''blockEverything''), (''cookieControl'', Str ''allowAllCookies'')]
       ''adControl'' = Str ''blockEverything''
   \<and> ''blockEverything'' \<notin> set (map fst adControlEnum)
   \<and> ''blockEverything'' \<notin> set object_prototype_names
   \<and> to_string (get [(''adControl'', Str ''blockEverything''),
                      (''cookieControl'', Str ''allowAllCookies'')] ''cookieControl'')
       = Inr ''allowAllCookies''
   \<and> (\<exists>built w'.
         createSiteSettingsData (Str ''https?://a.example'')
           [(''adControl'', Str ''blockEverything''), (''cookieControl'', Str ''allowAllCookies'')]
           example_world
         = (Ok built, w')
         \<and> item_name built = ''siteSetting''
         \<and> at_path (item_value built) [''adControl''] = Some Undefined)
   \<and> get [(''cookieControl'', Str ''blockEverything''), (''objectId'', Arr [Num 2])]
         ''cookieControl'' = Str ''blockEverything''
   \<and> ''blockEverything'' \<notin> set (map fst cookieControlEnum)
   \<and> to_string (get [(''cookieControl'', Str ''blockEverything''), (''objectId'', Arr [Num 2])]
                   ''adControl'')
       = Inr ''undefined''
   \<and> (\<exists>built w'.
         createSiteSettingsData (Str ''https?://a.example'')
           [(''cookieControl'', Str ''blockEverything''), (''objectId'', Arr [Num 2])]
           example_world
         = (Ok built, w')
         \<and> item_name built = ''siteSetting''
         \<and> at_path (item_value built) [''cookieControl''] = Some Undefined)"
proof -
  let ?a = "[(''adControl'', Str ''blockEverything''), (''cookieControl'', Str ''allowAllCookies'')]"
  let ?c = "[(''cookieControl'', Str ''blockEverything''), (''objectId'', Arr [Num 2])]"
  have 1: "get ?a ''adControl'' = Str ''blockEverything''"
    "to_string (get ?a ''cookieControl'') = Inr ''allowAllCookies''"
    "get ?c ''cookieControl'' = Str ''blockEverything''"
    "to_string (get ?c ''adControl'') = Inr ''undefined''"
    by (simp_all add: get_def)
  have 2: "''blockEverything'' \<notin> set (map fst adControlEnum)"
    "''blockEverything'' \<notin> set (map fst cookieControlEnum)"
    "''blockEverything'' \<notin> set object_prototype_names"
    by (simp_all add: adControlEnum_def cookieControlEnum_def object_prototype_names_def
          object_prototype_functions_def)
  note t = unknown_enum_value_is_built
             [where hostPattern = "Str ''https?://a.example''" and w = example_world
                and s = "''blockEverything''"]
  from t [where setting = ?a, THEN conjunct1] 1 2
  have 3: "\<exists>built w'.
         createSiteSettingsData (Str ''https?://a.example'') ?a example_world = (Ok built, w')
         \<and> item_name built = ''siteSetting''
         \<and> at_path (item_value built) [''adControl''] = Some Undefined"
    by simp
  from t [where setting = ?c, THEN conjunct2] 1 2
  have 4: "\<exists>built w'.
         createSiteSettingsData (Str ''https?://a.example'') ?c example_world = (Ok built, w')
         \<and> item_name built = ''siteSetting''
         \<and> at_path (item_value built) [''cookieControl''] = Some Undefined"
    by simp
  from 1 2 3 4 show ?thesis by simp
qed

section \<open>Enum translation\<close>

text \<open>
  Claim C6. The forward table of \<^verbatim>\<open>createSiteSettingsData\<close> maps \<^verbatim>\<open>"blockAds"\<close> to 1 and the
  inverse mapping takes 1 back to \<^verbatim>\<open>"blockAds"\<close>. For every recognised \<^verbatim>\<open>adControl\<close> string
  (\<^verbatim>\<open>showBraveAds\<close>, \<^verbatim>\<open>blockAds\<close>, \<^verbatim>\<open>allowAdsAndTracking\<close>) the record \<^verbatim>\<open>createSiteSettingsData\<close>
  builds for a setting with this value carries its code (0, 1, 2) in the field \<^verbatim>\<open>adControl\<close>,
  and the inverse mapping takes the code back to the string. (The other enum field, if the
  setting has it, is to hold a value that converts to a property key.)
\<close>

theorem adControl_round_trip:
  "at_key adControlEnum (Str ''blockAds'') = Inr (Num 1)
   \<and> adControl_inverse (Num 1) = Str ''blockAds''
   \<and> ((s, n) \<in> {(''showBraveAds'', 0), (''blockAds'', 1), (''allowAdsAndTracking'', 2)}
      \<and> get setting ''adControl'' = Str s
      \<and> (\<exists>k. to_string (get setting ''cookieControl'') = Inr k) \<longrightarrow>
      (\<exists>built w'. createSiteSettingsData hostPattern setting w = (Ok built, w')
         \<and> at_path (item_value built) [''adControl''] = Some (Num n)
         \<and> adControl_inverse (Num n) = Str s))"
proof (intro conjI impI)
  show "at_key adControlEnum (Str ''blockAds'') = Inr (Num 1)"
    by (simp add: at_key_def adControlEnum_def prop_of_def)
  show "adControl_inverse (Num 1) = Str ''blockAds''"
    by (simp add: adControlEnum_def adControl_inverse_def)
  assume a: "(s, n) \<in> {(''showBraveAds'', 0), (''blockAds'', 1), (''allowAdsAndTracking'', 2)}
      \<and> get setting ''adControl'' = Str s
      \<and> (\<exists>k. to_string (get setting ''cookieControl'') = Inr k)"
  then obtain k where g: "get setting ''adControl'' = Str s"
    and c: "to_string (get setting ''cookieControl'') = Inr k"
    by blast
  from a have f: "at_key adControlEnum (Str s) = Inr (Num n)"
    and i: "adControl_inverse (Num n) = Str s"
    by (auto simp: at_key_def adControlEnum_def prop_of_def adControl_inverse_def)
  from built_adControl [OF g c f, of hostPattern w] i
  show "\<exists>built w'. createSiteSettingsData hostPattern setting w = (Ok built, w')
         \<and> at_path (item_value built) [''adControl''] = Some (Num n)
         \<and> adControl_inverse (Num n) = Str s"
    by auto
qed

theorem adControl_round_trip_witness:
  "get [(''adControl'', Str ''blockAds''), (''objectId'', Arr [Num 1])] ''adControl''
     = Str ''blockAds''
   \<and> to_string (get [(''adControl'', Str ''blockAds''), (''objectId'', Arr [Num 1])]
                   ''cookieControl'') = Inr ''undefined''
   \<and> (\<exists>built w'.
         createSiteSettingsData (Str ''https?://a.example'')
           [(''adControl'', Str ''blockAds''), (''objectId'', Arr [Num 1])] example_world
         = (Ok built, w')
         \<and> at_path (item_value built) [''adControl''] = Some (Num 1)
         \<and> adControl_inverse (Num 1) = Str ''blockAds'')"
proof -
  let ?a = "[(''adControl'', Str ''blockAds''), (''objectId'', Arr [Num 1])]"
  have 1: "get ?a ''adControl'' = Str ''blockAds''"
    "to_string (get ?a ''cookieControl'') = Inr ''undefined''"
    by (simp_all add: get_def)
  from adControl_round_trip
         [where s = "''blockAds''" and n = 1 and setting = ?a
            and hostPattern = "Str ''https?://a.example''" and w = example_world] 1
  have "\<exists>built w'.
         createSiteSettingsData (Str ''https?://a.example'') ?a example_world = (Ok built, w')
         \<and> at_path (item_value built) [''adControl''] = Some (Num 1)
         \<and> adControl_inverse (Num 1) = Str ''blockAds''"
    by blast
  with 1 show ?thesis by blast
qed

section \<open>The fields of a site-setting record\<close>

text \<open>The schema fields, and what else the loop lets through.\<close>

lemma setting_step_keys:
  assumes "has val ''adControl''" and "has val ''cookieControl''"
    and "setting_step setting g val = Inr v1"
  shows "map fst v1
           = (if has val g \<or> g \<notin> set object_prototype_functions then map fst val
              else map fst val @ [g])"
proof -
  consider (ad) "g = ''adControl''" | (cookie) "g = ''cookieControl''"
    | (other) "g \<noteq> ''adControl''" "g \<noteq> ''cookieControl''" "in_op g val"
    | (none) "g \<noteq> ''adControl''" "g \<noteq> ''cookieControl''" "\<not> in_op g val"
    by blast
  then show ?thesis
  proof cases
    case ad
    with assms(3) obtain code where "v1 = assign ''adControl'' code val"
      by (auto simp: setting_step_def split: sum.splits)
    with ad assms(1) show ?thesis by (simp add: assign_def keys_set_prop)
  next
    case cookie
    with assms(3) obtain code where "v1 = assign ''cookieControl'' code val"
      by (auto simp: setting_step_def split: sum.splits)
    with cookie assms(2) show ?thesis by (simp add: assign_def keys_set_prop)
  next
    case other
    with assms(3) have v1: "v1 = assign g (prop_of setting g) val"
      by (simp add: setting_step_def)
    show ?thesis
    proof (cases "g = ''__proto__''")
      case True
      with v1 show ?thesis by (simp add: assign_def object_prototype_functions_def)
    next
      case False
      with other(3) have "has val g \<or> g \<in> set object_prototype_functions"
        by (simp add: in_op_def object_prototype_names_def)
      with v1 False show ?thesis by (auto simp: assign_def keys_set_prop)
    qed
  next
    case none
    with assms(3) have "v1 = val" by (simp add: setting_step_def)
    moreover from none(3) have "\<not> has val g" "g \<notin> set object_prototype_functions"
      by (simp_all add: in_op_def object_prototype_names_def)
    ultimately show ?thesis by simp
  qed
qed

lemma setting_step_has:
  "setting_step setting g val = Inr v1 \<Longrightarrow> has val k \<Longrightarrow> has v1 k"
  by (auto simp: setting_step_def assign_def has_set_prop split: sum.splits if_splits)

lemma setting_loop_keys:
  assumes "has val ''adControl''" and "has val ''cookieControl''"
    and "\<forall>k \<in> set ks. k \<notin> set object_prototype_functions"
    and "copy_setting_fields setting ks val = Inr val'"
  shows "map fst val' = map fst val"
  using assms
proof (induction ks arbitrary: val)
  case Nil
  then show ?case by simp
next
  case (Cons g ks)
  from Cons.prems(4) obtain v1 where 1: "setting_step setting g val = Inr v1"
    and 2: "copy_setting_fields setting ks v1 = Inr val'"
    by (auto split: sum.splits)
  from Cons.prems 1 have k: "map fst v1 = map fst val"
    by (simp add: setting_step_keys)
  from Cons.prems 1 have "has v1 ''adControl''" "has v1 ''cookieControl''"
    by (auto intro: setting_step_has)
  from Cons.IH [OF this _ 2] Cons.prems(3) k show ?case by simp
qed

lemma createSiteSettingsData_schema_fields:
  assumes "\<forall>k \<in> set (map fst setting). k \<notin> set object_prototype_functions"
    and "fst (createSiteSettingsData hp setting w) = Ok built"
  shows "\<exists>val. item_value built = Obj val \<and> map fst val = map fst siteSettingDefaults"
proof -
  let ?v0 = "set_prop ''hostPattern'' hp siteSettingDefaults"
  from assms(2) obtain val where
    l: "copy_setting_fields setting (for_in_keys setting) ?v0 = Inr val"
    and b: "item_value built = Obj val"
    by (auto simp: createSiteSettingsData_def split: sum.splits prod.splits)
  have "has ?v0 ''adControl''" "has ?v0 ''cookieControl''" "map fst ?v0 = map fst siteSettingDefaults"
    by (simp_all add: siteSettingDefaults_def has_def)
  with setting_loop_keys [OF _ _ _ l] assms(1)
  have "map fst val = map fst siteSettingDefaults"
    by (simp add: for_in_keys_def)
  with b show ?thesis by simp
qed

text \<open>
  Claim C10 fails on the code. \<^verbatim>\<open>field in value\<close> also holds for a name that \<^verbatim>\<open>value\<close> inherits
  from \<^verbatim>\<open>Object.prototype\<close>, so a setting with a key such as \<^verbatim>\<open>constructor\<close> has it copied into
  the record value, next to the eleven schema fields. (\<open>createSiteSettingsData_schema_fields\<close>
  above: without such a key the value has exactly the schema fields.)
\<close>

theorem createSiteSettingsData_copies_inherited_name:
  "fst (createSiteSettingsData (Str ''https?://a.example'')
          [(''zoomLevel'', Num 2), (''constructor'', Str ''x''), (''objectId'', Arr [Num 1])]
          example_world)
   = Ok \<lparr>item_name = ''siteSetting'', item_objectId = Arr [Num 1],
      item_value =
        Obj [(''hostPattern'', Str ''https?://a.example''),
             (''zoomLevel'', Num 2),
             (''shieldsUp'', Bool True),
             (''adControl'', Num 1),
             (''cookieControl'', Num 0),
             (''safeBrowsing'', Bool True),
             (''noScript'', Bool False),
             (''httpsEverywhere'', Bool True),
             (''fingerprintingProtection'', Bool False),
             (''ledgerPayments'', Bool True),
             (''ledgerPaymentsShown'', Bool True),
             (''constructor'', Str ''x'')]\<rparr>"
  by (simp add: builder_defs)

section \<open>Dispatching a site that is not syncable\<close>

text \<open>
  \<^verbatim>\<open>toJS()\<close> lists the keys of a map in another order, and changes no entry.
\<close>

lemma map_of_insort_key:
  "map_of (insort_key (\<lambda>(k, v). f k) x xs) k = map_of (x # xs) k"
proof (induction xs)
  case Nil
  show ?case by simp
next
  case (Cons y ys)
  obtain a b where x: "x = (a, b)" by (cases x)
  obtain c d where y: "y = (c, d)" by (cases y)
  show ?case using Cons x y by auto
qed

lemma map_of_sort_key:
  "map_of (sort_key (\<lambda>(k, v). f k) xs) k = map_of xs k"
  by (induction xs) (simp_all add: map_of_insort_key)

lemma map_of_filter_key:
  "map_of (filter (\<lambda>(k, v). P k) xs) k = (if P k then map_of xs k else None)"
  by (induction xs) auto

lemma map_of_plain_order: "map_of (plain_order kvs) k = map_of kvs k"
  by (simp add: plain_order_def map_add_def map_of_sort_key map_of_filter_key
        split: option.splits)

lemma set_plain_order: "set (plain_order kvs) = set kvs"
  by (auto simp: plain_order_def)

lemma get_toJS_map: "get (toJS_map m) k = toJS (map_get m k)"
proof -
  have "map_of (map (\<lambda>(k, v). (k, toJS v)) m) k = map_option toJS (map_of m k)"
    by (induction m) auto
  then show ?thesis
    by (simp add: toJS_map_def get_def map_get_def map_of_plain_order split: option.splits)
qed

lemma has_toJS_map: "has (toJS_map m) k = map_has m k"
  by (force simp: toJS_map_def has_def map_has_def set_plain_order image_iff)

lemma truthy_toJS: "truthy (toJS v) = is_truthy v"
  by (cases v) (simp_all add: Let_def)

lemma toJS_Str_iff: "toJS x = Str s \<longleftrightarrow> x = Plain (Str s)"
  by (cases x) auto

lemma createSiteData_unsyncable:
  assumes "isPlainObj site" and "get site ''tags'' = Arr tags" and "tags \<noteq> []"
    and "Str ''bookmark'' \<notin> set tags" and "Str ''bookmark-folder'' \<notin> set tags"
  shows "createSiteData site siteIndex w = (Ok None, w)"
proof -
  from isSyncable_fromJS_tags [OF assms(1,2)] assms(4,5)
  have "isSyncable ''bookmark'' (fromJS (Obj site)) = Inr False" by simp
  then show ?thesis
    using assms(2,3) by (simp add: createSiteData_def tags_not_inherited)
qed

lemma doAction_unsyncable_site:
  assumes "action_item a = ImmutableMap m" and "is_truthy (map_get m ''objectId'')"
    and "isPlainObj (toJS_map m)"
    and "map_get m ''tags'' = ImmutableList tags" and "tags \<noteq> []"
    and "Plain (Str ''bookmark'') \<notin> set tags" and "Plain (Str ''bookmark-folder'') \<notin> set tags"
    and "actionType a \<in> {SYNC_ADD_SITE, SYNC_UPDATE_SITE, SYNC_REMOVE_SITE}"
  shows "doAction a w =
           (Throw (if truthy (deviceId w)
                   then TypeError ''Cannot read property name of undefined''
                   else Error ''Cannot build a sync record because deviceId is not set''), w)"
proof -
  have "get (toJS_map m) ''tags'' = Arr (map toJS tags)"
    using assms(4) by (simp add: get_toJS_map)
  moreover have "map toJS tags \<noteq> []" using assms(5) by simp
  moreover have "Str s \<notin> set (map toJS tags)" if "Plain (Str s) \<notin> set tags" for s
  proof
    assume "Str s \<in> set (map toJS tags)"
    then obtain x where "x \<in> set tags" "toJS x = Str s" by auto
    with that show False by (simp add: toJS_Str_iff)
  qed
  then have "Str ''bookmark'' \<notin> set (map toJS tags)"
    "Str ''bookmark-folder'' \<notin> set (map toJS tags)"
    using assms(6,7) by blast+
  moreover note assms(3)
  ultimately have "createSiteData (toJS_map m) Undefined w = (Ok None, w)"
    by (intro createSiteData_unsyncable [of _ "map toJS tags"])
  then show ?thesis
    using assms(1,2,8) by (auto simp: doAction_def and_then_def sendSyncRecords_def)
qed

text \<open>The definitions to unfold when the engine is run on a concrete world.\<close>

lemmas engine_defs =
  onSyncReady_def doAction_def sync_site_def sendSyncRecords_def and_then_def poll_def now_def
  log_missing_id_def log_def toJS_map_def plain_order_def array_index_def decimal_def
  digit_value_def CATEGORY_MAP_def example_world_def example_imported_def

text \<open>
  Claim C9 fails on the code. For a site with a non-empty tag list that holds neither
  \<^verbatim>\<open>bookmark\<close> nor \<^verbatim>\<open>bookmark-folder\<close> the builder returns \<^verbatim>\<open>undefined\<close>, but
  \<^verbatim>\<open>doAction\<close> hands \<^verbatim>\<open>[undefined]\<close> to \<^verbatim>\<open>sendSyncRecords\<close>, which reads
  \<^verbatim>\<open>data[0].name\<close> before it looks at the elements: a \<^verbatim>\<open>TypeError\<close> escapes.
\<close>

theorem doAction_unsyncable_site_throws:
  "createSiteData
     [(''location'', Str ''https://a.example/''), (''tags'', Arr [Str ''pinned'']),
      (''objectId'', Arr [Num 1])]
     Undefined example_world
   = (Ok None, example_world)
   \<and> doAction
       \<lparr>actionType = SYNC_ADD_SITE,
        action_item = ImmutableMap [(''location'', Plain (Str ''https://a.example/'')),
                                    (''tags'', ImmutableList [Plain (Str ''pinned'')]),
                                    (''objectId'', ImmutableList [Plain (Num 1)])],
        action_hostPattern = Undefined\<rparr>
       example_world
     = (Throw (TypeError ''Cannot read property name of undefined''), example_world)"
  by (simp add: engine_defs builder_defs)

theorem doAction_unsyncable_site_throws_witness:
  "fst (doAction
       \<lparr>actionType = SYNC_ADD_SITE,
        action_item = ImmutableMap [(''location'', Plain (Str ''https://a.example/'')),
                                    (''tags'', ImmutableList [Plain (Str ''pinned'')]),
                                    (''objectId'', ImmutableList [Plain (Num 1)])],
        action_hostPattern = Undefined\<rparr>
       example_world)
     = Throw (TypeError ''Cannot read property name of undefined'')"
  using doAction_unsyncable_site_throws by simp

section \<open>Engine start and polling\<close>

lemma id_requests_simps [simp]:
  "id_requests [] = []"
  "id_requests (xs @ ys) = id_requests xs @ id_requests ys"
  "id_requests (AppSetObjectId oid p # ds) = (oid, p) # id_requests ds"
  "id_requests (AppSaveSyncInitData a b c # ds) = id_requests ds"
  by (simp_all add: id_requests_def)

lemma saved_watermarks_simps [simp]:
  "saved_watermarks [] = []"
  "saved_watermarks (xs @ ys) = saved_watermarks xs @ saved_watermarks ys"
  "saved_watermarks (AppSetObjectId oid p # ds) = saved_watermarks ds"
  "saved_watermarks (AppSaveSyncInitData a b c # ds) = c # saved_watermarks ds"
  by (simp_all add: saved_watermarks_def)

lemma saved_watermarks_map [simp]:
  "saved_watermarks (map (\<lambda>(objectId, p). AppSetObjectId objectId p) reqs) = []"
  by (induction reqs) auto

lemma fetches_simps [simp]:
  "fetches [] = []"
  "fetches (xs @ ys) = fetches xs @ fetches ys"
  "fetches (SEND_SYNC_RECORDS c rs # ms) = fetches ms"
  "fetches (DELETE_SYNC_CATEGORY c # ms) = fetches ms"
  "fetches (DELETE_SYNC_SITE_SETTINGS # ms) = fetches ms"
  "fetches (FETCH_SYNC_RECORDS ns s # ms) = (ns, s) # fetches ms"
  by (simp_all add: fetches_def)

lemma fetches_map [simp]: "fetches (map (\<lambda>(c, rs). SEND_SYNC_RECORDS c rs) sends) = []"
  by (induction sends) auto

text \<open>
  Up to the polling block \<^verbatim>\<open>onSyncReady\<close> requests object ids and sends records, and changes
  nothing else.
\<close>

lemma backfilled_refl [simp]: "backfilled w [] [] w"
  unfolding backfilled_def by (rule exI [of _ "drawn w"]) simp



lemma changed_by_backfill_refl [simp]: "changed_by_backfill w w"
  unfolding changed_by_backfill_def using backfilled_refl by blast



















section \<open>The first run\<close>

text \<open>
  The scan of the site collection passes over a site without tags, with or without an object
  id: \<^verbatim>\<open>isSyncable('bookmark', site)\<close> is false of it.
\<close>

lemma sync_site_skips_history:
  "\<not> is_truthy (map_get m ''tags'') \<Longrightarrow> sync_site (ImmutableMap m) i w = (Ok (), w)"
  by (simp add: sync_site_def isSyncable_def)

text \<open>
  Claim C8 fails on the code. On a first run with a device id established, \<^verbatim>\<open>onSyncReady\<close>
  requests a fresh object id for the path \<^verbatim>\<open>['sync']\<close> and builds the device record, but
  \<^verbatim>\<open>sendSyncRecords\<close> then reads \<^verbatim>\<open>syncUtil.CATEGORY_MAP[data[0].name]\<close>, and \<^verbatim>\<open>syncUtil.js\<close>
  exports no \<^verbatim>\<open>CATEGORY_MAP\<close>: a \<^verbatim>\<open>TypeError\<close> escapes \<^verbatim>\<open>onSyncReady\<close>. The device record is
  not sent, the site collection is not scanned, and polling does not start: the world has
  changed by the registered dispatcher callback, the sixteen octets drawn and the one id
  request only.
\<close>

theorem first_run_sends_no_device_record:
  assumes "truthy (deviceId w0)"
  shows "onSyncReady imp True w0
           = (Throw (TypeError ''Cannot read property device of undefined''),
              w0\<lparr>listeners := listeners w0 @ [DispatcherCallback],
                 drawn := drawn w0 + 16,
                 dispatched := dispatched w0 @ [AppSetObjectId (fresh_id w0) [Str ''sync'']]\<rparr>)"
  using assms
  by (simp add: onSyncReady_def and_then_def newObjectId_eq sendSyncRecords_def CATEGORY_MAP_def
        fresh_id_def)

theorem first_run_sends_no_device_record_witness:
  "truthy (deviceId example_first_run)
   \<and> onSyncReady example_imported True example_first_run
       = (Throw (TypeError ''Cannot read property device of undefined''),
          example_first_run
            \<lparr>listeners := [DispatcherCallback],
             drawn := 16,
             dispatched :=
               [AppSetObjectId (Arr [Num 0, Num 1, Num 2, Num 3, Num 4, Num 5, Num 6, Num 7,
                                     Num 8, Num 9, Num 10, Num 11, Num 12, Num 13, Num 14, Num 15])
                  [Str ''sync'']]\<rparr>)
   \<and> records_sent (channel (snd (onSyncReady example_imported True example_first_run))) = []"
proof -
  have d: "truthy (deviceId example_first_run)"
    by (simp add: example_first_run_def example_world_def)
  have f: "fresh_id example_first_run
             = Arr [Num 0, Num 1, Num 2, Num 3, Num 4, Num 5, Num 6, Num 7,
                    Num 8, Num 9, Num 10, Num 11, Num 12, Num 13, Num 14, Num 15]"
    by (simp add: fresh_id_def example_first_run_def example_world_def array_from_def upt_rec)
  from first_run_sends_no_device_record [OF d, of example_imported] d f
  show ?thesis
    by (simp add: example_first_run_def example_world_def)
qed

end
